theory Spec2Isabelle
  imports Complex_Main
begin

section \<open>Numbers and three.js vectors\<close>

text \<open>
  JavaScript numbers are modelled as real numbers (no rounding, no NaN, no infinities).
  An optional field (\<open>x?: number\<close>) is an \<open>option\<close>, with \<open>None\<close> for \<open>undefined\<close>.
\<close>

text \<open>\<open>Math.sign\<close>\<close>

definition Math_sign :: "real \<Rightarrow> real" where
  "Math_sign a = (if a > 0 then 1 else if a < 0 then -1 else 0)"

text \<open>Truthiness of an optional number, as in \<open>if (boostForce)\<close>: defined and non-zero.\<close>

definition truthy :: "real option \<Rightarrow> bool" where
  "truthy v = (case v of None \<Rightarrow> False | Some a \<Rightarrow> a \<noteq> 0)"

text \<open>\<open>v || d\<close> on an optional number: the default replaces \<open>undefined\<close> and \<open>0\<close>.\<close>

definition orDefault :: "real option \<Rightarrow> real \<Rightarrow> real" where
  "orDefault v d = (case v of None \<Rightarrow> d | Some a \<Rightarrow> if a \<noteq> 0 then a else d)"

text \<open>\<open>v ?? d\<close>: the default replaces \<open>undefined\<close> only.\<close>

definition nullish :: "'a option \<Rightarrow> 'a \<Rightarrow> 'a" where
  "nullish v d = (case v of None \<Rightarrow> d | Some a \<Rightarrow> a)"

text \<open>\<open>THREE.Vector3\<close>: \<open>vx v\<close> is \<open>v.x\<close>, and so on.\<close>

record Vector3 =
  vx :: real
  vy :: real
  vz :: real

definition vec :: "real \<Rightarrow> real \<Rightarrow> real \<Rightarrow> Vector3" where
  "vec a b c = \<lparr>vx = a, vy = b, vz = c\<rparr>"

definition add :: "Vector3 \<Rightarrow> Vector3 \<Rightarrow> Vector3" where
  "add a b = vec (vx a + vx b) (vy a + vy b) (vz a + vz b)"

definition sub :: "Vector3 \<Rightarrow> Vector3 \<Rightarrow> Vector3" where
  "sub a b = vec (vx a - vx b) (vy a - vy b) (vz a - vz b)"

definition multiplyScalar :: "Vector3 \<Rightarrow> real \<Rightarrow> Vector3" where
  "multiplyScalar a s = vec (vx a * s) (vy a * s) (vz a * s)"

definition dot :: "Vector3 \<Rightarrow> Vector3 \<Rightarrow> real" where
  "dot a b = vx a * vx b + vy a * vy b + vz a * vz b"

definition lengthSq :: "Vector3 \<Rightarrow> real" where
  "lengthSq a = vx a * vx a + vy a * vy a + vz a * vz a"

definition length3 :: "Vector3 \<Rightarrow> real" where
  "length3 a = sqrt (vx a * vx a + vy a * vy a + vz a * vz a)"

text \<open>\<open>divideScalar(this.length() || 1)\<close>: the zero vector stays the zero vector.\<close>

definition normalize :: "Vector3 \<Rightarrow> Vector3" where
  "normalize a = multiplyScalar a (1 / (if length3 a \<noteq> 0 then length3 a else 1))"

definition distanceTo :: "Vector3 \<Rightarrow> Vector3 \<Rightarrow> real" where
  "distanceTo a b = length3 (sub a b)"

section \<open>PhysicsService: the integrator\<close>

text \<open>
  A mesh, as far as the physics reads it: \<open>mesh.position\<close> and the sphere geometry's
  \<open>parameters.radius\<close>.
\<close>

record Mesh =
  position :: Vector3
  radius :: real

record PhysicsObject =
  mesh :: Mesh
  velocity :: Vector3
  acceleration :: Vector3
  mass :: real
  restitution :: real
  friction :: real
  previousPosition :: Vector3
  previousVelocity :: Vector3

record PhysicsConfig =
  gravity :: real
  maxVelocity :: real
  minBounceVelocity :: real
  maxPredictionSteps :: real

text \<open>The configuration set by the constructor of \<open>PhysicsService\<close>.\<close>

definition physicsConfig :: PhysicsConfig where
  "physicsConfig =
     \<lparr>gravity = 20, maxVelocity = 30, minBounceVelocity = 1/10, maxPredictionSteps = 3\<rparr>"

text \<open>\<open>PhysicsService.updateObject\<close>\<close>

definition updateObject :: "PhysicsConfig \<Rightarrow> PhysicsObject \<Rightarrow> real \<Rightarrow> PhysicsObject" where
  "updateObject cfg object deltaTime =
     (let v1 = add (velocity object) (multiplyScalar (acceleration object) deltaTime);
          v2 = (if length3 v1 > maxVelocity cfg
                then multiplyScalar (normalize v1) (maxVelocity cfg) else v1);
          deltaPosition = multiplyScalar v2 deltaTime
      in object\<lparr>velocity := v2,
                mesh := (mesh object)\<lparr>position := add (position (mesh object)) deltaPosition\<rparr>\<rparr>)"

text \<open>
  \<open>PhysicsService.checkBounds\<close>, in the order of the source: the floor at \<open>y = 0\<close>,
  then the x bound, then the z bound (\<open>bounds = 10\<close>).
\<close>

definition checkFloor :: "PhysicsConfig \<Rightarrow> PhysicsObject \<Rightarrow> PhysicsObject" where
  "checkFloor cfg object =
     (let p = position (mesh object); v = velocity object; r = radius (mesh object) in
      if vy p - r < 0 then
        (if \<bar>vy v\<bar> > minBounceVelocity cfg
         then object\<lparr>mesh := (mesh object)\<lparr>position := p\<lparr>vy := r\<rparr>\<rparr>,
                     velocity := \<lparr>vx = vx v * (1 - friction object),
                                  vy = \<bar>vy v\<bar> * restitution object,
                                  vz = vz v * (1 - friction object)\<rparr>\<rparr>
         else object\<lparr>mesh := (mesh object)\<lparr>position := p\<lparr>vy := r\<rparr>\<rparr>,
                     velocity := v\<lparr>vy := 0\<rparr>\<rparr>)
      else object)"

definition checkBoundX :: "PhysicsObject \<Rightarrow> PhysicsObject" where
  "checkBoundX object =
     (let p = position (mesh object); v = velocity object in
      if \<bar>vx p\<bar> > 10
      then object\<lparr>mesh := (mesh object)\<lparr>position := p\<lparr>vx := Math_sign (vx p) * 10\<rparr>\<rparr>,
                  velocity := v\<lparr>vx := vx v * (- restitution object)\<rparr>\<rparr>
      else object)"

definition checkBoundZ :: "PhysicsObject \<Rightarrow> PhysicsObject" where
  "checkBoundZ object =
     (let p = position (mesh object); v = velocity object in
      if \<bar>vz p\<bar> > 10
      then object\<lparr>mesh := (mesh object)\<lparr>position := p\<lparr>vz := Math_sign (vz p) * 10\<rparr>\<rparr>,
                  velocity := v\<lparr>vz := vz v * (- restitution object)\<rparr>\<rparr>
      else object)"

definition checkBounds :: "PhysicsConfig \<Rightarrow> PhysicsObject \<Rightarrow> PhysicsObject" where
  "checkBounds cfg object = checkBoundZ (checkBoundX (checkFloor cfg object))"

text \<open>
  The sub-step count of \<open>PhysicsService.update\<close>:
  \<open>Math.min(Math.ceil(object.velocity.length() * deltaTime), maxPredictionSteps)\<close>.
\<close>

definition subSteps :: "PhysicsConfig \<Rightarrow> PhysicsObject \<Rightarrow> real \<Rightarrow> real" where
  "subSteps cfg object deltaTime =
     min (of_int \<lceil>length3 (velocity object) * deltaTime\<rceil>) (maxPredictionSteps cfg)"

text \<open>
  The loop \<open>for (step = 0; step < subSteps; step++)\<close> runs once for every natural number
  below \<open>subSteps\<close>; \<open>stepLoop\<close> is its body repeated that many times.
\<close>

definition iterations :: "real \<Rightarrow> nat" where
  "iterations n = nat \<lceil>n\<rceil>"

fun stepLoop :: "PhysicsConfig \<Rightarrow> real \<Rightarrow> nat \<Rightarrow> PhysicsObject \<Rightarrow> PhysicsObject" where
  "stepLoop cfg subDelta 0 object = object"
| "stepLoop cfg subDelta (Suc n) object =
     stepLoop cfg subDelta n (checkBounds cfg (updateObject cfg object subDelta))"

text \<open>
  The body of \<open>objects.forEach\<close> in \<open>PhysicsService.update\<close>. With \<open>subSteps = 0\<close>
  the source's \<open>subDelta\<close> is infinite or NaN and HOL's is \<open>0\<close>; the loop does not
  run then, so the value is never read.
\<close>

definition updateOne :: "PhysicsConfig \<Rightarrow> real \<Rightarrow> PhysicsObject \<Rightarrow> PhysicsObject" where
  "updateOne cfg deltaTime object =
     (let object1 = object\<lparr>previousPosition := position (mesh object),
                           previousVelocity := velocity object\<rparr>;
          n = subSteps cfg object1 deltaTime;
          subDelta = deltaTime / n
      in stepLoop cfg subDelta (iterations n) object1)"

text \<open>\<open>ErrorService\<close>: \<open>handleError\<close> stores the error and keeps the last 100.\<close>

datatype ErrorSeverity = LOW | MEDIUM | HIGH | CRITICAL

record GameEngineError =
  message :: string
  component :: string
  action :: string
  severity :: ErrorSeverity

definition handleError :: "GameEngineError list \<Rightarrow> GameEngineError \<Rightarrow> GameEngineError list" where
  "handleError errors e =
     (let errors1 = errors @ [e] in if length errors1 > 100 then tl errors1 else errors1)"

text \<open>
  The state of \<open>PhysicsService\<close>: the \<open>objects\<close> map, the configuration, and the
  errors it has handed to \<open>ErrorService\<close>.
\<close>

record PhysicsService =
  objects :: "string \<rightharpoonup> PhysicsObject"
  config :: PhysicsConfig
  errors :: "GameEngineError list"

record ObjectOptions =
  opt_mass :: "real option"
  opt_restitution :: "real option"
  opt_friction :: "real option"

text \<open>
  \<open>PhysicsService.addObject\<close>. Nothing in its \<open>try\<close> block throws (the debug log
  aside), so the \<open>catch\<close> branch has no counterpart here.
\<close>

definition addObject :: "PhysicsService \<Rightarrow> string \<Rightarrow> Mesh \<Rightarrow> ObjectOptions \<Rightarrow> PhysicsService" where
  "addObject svc ident m options =
     (let object = \<lparr>mesh = m,
                     velocity = vec 0 0 0,
                     acceleration = vec 0 (- gravity (config svc)) 0,
                     mass = nullish (opt_mass options) 1,
                     restitution = nullish (opt_restitution options) (1/2),
                     friction = nullish (opt_friction options) (1/5),
                     previousPosition = position m,
                     previousVelocity = vec 0 0 0\<rparr>
      in svc\<lparr>objects := (objects svc)(ident \<mapsto> object)\<rparr>)"

text \<open>\<open>PhysicsService.removeObject\<close>: an unknown id is reported and nothing is removed.\<close>

definition removeObject :: "PhysicsService \<Rightarrow> string \<Rightarrow> PhysicsService" where
  "removeObject svc ident =
     (if objects svc ident = None
      then svc\<lparr>errors := handleError (errors svc)
                 \<lparr>message = ''Object not found for removal'', component = ''PhysicsService'',
                  action = ''removeObject'', severity = LOW\<rparr>\<rparr>
      else svc\<lparr>objects := (objects svc)(ident := None)\<rparr>)"

text \<open>\<open>PhysicsService.update\<close>: every object of the map is updated on its own.\<close>

definition update :: "PhysicsService \<Rightarrow> real \<Rightarrow> PhysicsService" where
  "update svc deltaTime =
     svc\<lparr>objects := (\<lambda>ident. map_option (updateOne (config svc) deltaTime) (objects svc ident))\<rparr>"

text \<open>
  \<open>PhysicsService.applyImpulse\<close>: the force divided by the mass is added to the velocity
  of the integrator's object; an unknown id is reported and nothing changes. (For a mass
  of 0 the source's impulse is infinite or NaN, which this model does not have.)
\<close>

definition applyImpulse :: "PhysicsService \<Rightarrow> string \<Rightarrow> Vector3 \<Rightarrow> PhysicsService" where
  "applyImpulse svc ident force =
     (case objects svc ident of
        None \<Rightarrow>
          svc\<lparr>errors := handleError (errors svc)
                 \<lparr>message = ''Object not found'', component = ''PhysicsService'',
                  action = ''applyImpulse'', severity = MEDIUM\<rparr>\<rparr>
      | Some object \<Rightarrow>
          (let impulse = multiplyScalar force (1 / mass object)
           in svc\<lparr>objects := (objects svc)(ident \<mapsto> object\<lparr>velocity := add (velocity object) impulse\<rparr>)\<rparr>))"

section \<open>GameEngine: the fixed-step loop\<close>

definition fixedTimeStep :: real where
  "fixedTimeStep = 1 / 60"

text \<open>
  \<open>GameEngine.update\<close> hands \<open>cappedDeltaTime = Math.min(deltaTime, 0.1)\<close> to the
  platforms, the input handler, the integrator and the collision queries.
\<close>

definition cappedDeltaTime :: "real \<Rightarrow> real" where
  "cappedDeltaTime deltaTime = min deltaTime (1/10)"

text \<open>
  The loop state of the engine. \<open>updates\<close> records, in order, the capped delta of every
  call of \<open>update\<close> made so far.
\<close>

record LoopState =
  isRunning :: bool
  frameCount :: nat
  lastFrameTime :: real
  accumulator :: real
  updates :: "real list"

text \<open>
  \<open>while (this.accumulator >= this.fixedTimeStep) { this.update(this.fixedTimeStep);
  this.accumulator -= this.fixedTimeStep; }\<close>
\<close>

function drain :: "real \<Rightarrow> real list \<Rightarrow> real \<times> real list" where
  "drain acc trace =
     (if acc \<ge> fixedTimeStep
      then drain (acc - fixedTimeStep) (trace @ [cappedDeltaTime fixedTimeStep])
      else (acc, trace))"
  by pat_completeness auto
termination
proof (relation "measure (\<lambda>(acc, trace). nat \<lfloor>acc * 60\<rfloor>)")
  show "wf (measure (\<lambda>(acc, trace). nat \<lfloor>acc * 60\<rfloor>))" by simp
next
  fix acc :: real and trace :: "real list"
  assume a: "fixedTimeStep \<le> acc"
  have "(acc - fixedTimeStep) * 60 = acc * 60 - 1"
    by (simp add: fixedTimeStep_def algebra_simps)
  moreover have "1 \<le> \<lfloor>acc * 60\<rfloor>"
    using a by (simp add: fixedTimeStep_def le_floor_iff)
  ultimately show "((acc - fixedTimeStep, trace @ [cappedDeltaTime fixedTimeStep]), (acc, trace))
      \<in> measure (\<lambda>(acc, trace). nat \<lfloor>acc * 60\<rfloor>)"
    by simp
qed

declare drain.simps [simp del]

text \<open>
  \<open>GameEngine.gameLoop\<close>, with \<open>performance.now()\<close> (milliseconds) as the argument
  \<open>currentTime\<close>. \<open>update\<close> is taken not to throw, so the \<open>catch\<close> branch (report
  the error and stop) has no counterpart; rendering and the request for the next frame
  leave the loop state as it is.
\<close>

definition gameLoop :: "LoopState \<Rightarrow> real \<Rightarrow> LoopState" where
  "gameLoop st currentTime =
     (if \<not> isRunning st then st
      else
        let deltaTime = (currentTime - lastFrameTime st) / 1000;
            acc0 = accumulator st + deltaTime;
            (acc, trace) = drain acc0 (updates st)
        in st\<lparr>frameCount := frameCount st + 1, lastFrameTime := currentTime,
               accumulator := acc, updates := trace\<rparr>)"

section \<open>Platform\<close>

datatype PlatformType = NORMAL | START | FINISH | CHECKPOINT | BOOST | OBSTACLE | BOUNCE

datatype Axis = AxisX | AxisY | AxisZ

record PlatformConfig =
  cfg_width :: real
  cfg_depth :: real
  cfg_height :: real
  cfg_position :: Vector3
  cfg_isMoving :: "bool option"
  cfg_moveSpeed :: "real option"
  cfg_moveDistance :: "real option"
  cfg_moveAxis :: "Axis option"
  cfg_type :: "PlatformType option"
  cfg_boostForce :: "real option"
  cfg_bounceForce :: "real option"
  cfg_checkpointIndex :: "real option"
  cfg_isActive :: "bool option"

text \<open>\<open>THREE.Box3\<close>, with the operations of three.js that the platform calls.\<close>

record Box3 =
  bmin :: Vector3
  bmax :: Vector3

definition isEmpty :: "Box3 \<Rightarrow> bool" where
  "isEmpty b = (vx (bmax b) < vx (bmin b) \<or> vy (bmax b) < vy (bmin b) \<or> vz (bmax b) < vz (bmin b))"

definition getCenter :: "Box3 \<Rightarrow> Vector3" where
  "getCenter b = (if isEmpty b then vec 0 0 0 else multiplyScalar (add (bmin b) (bmax b)) (1/2))"

definition getSize :: "Box3 \<Rightarrow> Vector3" where
  "getSize b = (if isEmpty b then vec 0 0 0 else sub (bmax b) (bmin b))"

definition expandByScalar :: "Box3 \<Rightarrow> real \<Rightarrow> Box3" where
  "expandByScalar b s = \<lparr>bmin = add (bmin b) (vec (- s) (- s) (- s)), bmax = add (bmax b) (vec s s s)\<rparr>"

definition containsPoint :: "Box3 \<Rightarrow> Vector3 \<Rightarrow> bool" where
  "containsPoint b p =
     (vx (bmin b) \<le> vx p \<and> vx p \<le> vx (bmax b) \<and>
      vy (bmin b) \<le> vy p \<and> vy p \<le> vy (bmax b) \<and>
      vz (bmin b) \<le> vz p \<and> vz p \<le> vz (bmax b))"

text \<open>
  \<open>boundingBox.setFromObject(mesh)\<close> for the mesh the constructor has just built: a
  \<open>BoxGeometry(width, height, depth)\<close>, not rotated, centred at \<open>mesh.position\<close>.
\<close>

definition setFromObject :: "Vector3 \<Rightarrow> real \<Rightarrow> real \<Rightarrow> real \<Rightarrow> Box3" where
  "setFromObject p w h d =
     \<lparr>bmin = sub p (vec (\<bar>w\<bar> / 2) (\<bar>h\<bar> / 2) (\<bar>d\<bar> / 2)),
      bmax = add p (vec (\<bar>w\<bar> / 2) (\<bar>h\<bar> / 2) (\<bar>d\<bar> / 2))\<rparr>"

text \<open>
  The fields of a \<open>Platform\<close>. \<open>width\<close>, \<open>height\<close> and \<open>depth\<close> are the geometry
  parameters read by \<open>getDimensions\<close>; \<open>meshPosition\<close> is \<open>mesh.position\<close>;
  \<open>platVelocity\<close> and \<open>platPreviousPosition\<close> are the fields \<open>velocity\<close> and
  \<open>previousPosition\<close>.
\<close>

record Platform =
  width :: real
  height :: real
  depth :: real
  meshPosition :: Vector3
  isMoving :: bool
  moveSpeed :: real
  moveDistance :: real
  moveAxis :: Axis
  initialPosition :: Vector3
  accumulatedTime :: real
  boundingBox :: Box3
  platPreviousPosition :: Vector3
  platVelocity :: Vector3
  ptype :: PlatformType
  boostForce :: real
  bounceForce :: real
  checkpointIndex :: real
  isActive :: bool

definition maxPenetration :: real where
  "maxPenetration = 1 / 10"

text \<open>The constructor of \<open>Platform\<close>. It has no \<open>throw\<close> and no check of its input.\<close>

definition Platform_new :: "PlatformConfig \<Rightarrow> Platform" where
  "Platform_new cfg =
     \<lparr>width = cfg_width cfg,
      height = cfg_height cfg,
      depth = cfg_depth cfg,
      meshPosition = cfg_position cfg,
      isMoving = nullish (cfg_isMoving cfg) False,
      moveSpeed = orDefault (cfg_moveSpeed cfg) 2,
      moveDistance = orDefault (cfg_moveDistance cfg) 2,
      moveAxis = nullish (cfg_moveAxis cfg) AxisY,
      initialPosition = cfg_position cfg,
      accumulatedTime = 0,
      boundingBox = setFromObject (cfg_position cfg) (cfg_width cfg) (cfg_height cfg) (cfg_depth cfg),
      platPreviousPosition = cfg_position cfg,
      platVelocity = vec 0 0 0,
      ptype = nullish (cfg_type cfg) NORMAL,
      boostForce = orDefault (cfg_boostForce cfg) (3/2),
      bounceForce = orDefault (cfg_bounceForce cfg) (3/2),
      checkpointIndex = orDefault (cfg_checkpointIndex cfg) (- 1),
      isActive = nullish (cfg_isActive cfg) True\<rparr>"

definition getDimensions :: "Platform \<Rightarrow> real \<times> real \<times> real" where
  "getDimensions p = (width p, height p, depth p)"

record PlatformEffect =
  eff_boostForce :: "real option"
  eff_bounceForce :: "real option"
  eff_checkpointIndex :: "real option"

record CollisionResult =
  collides :: bool
  normal :: "Vector3 option"
  penetration :: "real option"
  time :: "real option"
  point :: "Vector3 option"
  platformType :: "PlatformType option"
  platformEffect :: "PlatformEffect option"

text \<open>\<open>{ collides: false }\<close>\<close>

definition noCollision :: CollisionResult where
  "noCollision =
     \<lparr>collides = False, normal = None, penetration = None, time = None, point = None,
      platformType = None, platformEffect = None\<rparr>"

text \<open>
  \<open>getPlatformEffect\<close>, and the same \<open>switch\<close> written out in \<open>checkSphereCollision\<close>.
\<close>

definition getPlatformEffect :: "Platform \<Rightarrow> PlatformEffect" where
  "getPlatformEffect p =
     (case ptype p of
        BOOST \<Rightarrow> \<lparr>eff_boostForce = Some (boostForce p), eff_bounceForce = None,
                  eff_checkpointIndex = None\<rparr>
      | BOUNCE \<Rightarrow> \<lparr>eff_boostForce = None, eff_bounceForce = Some (bounceForce p),
                   eff_checkpointIndex = None\<rparr>
      | CHECKPOINT \<Rightarrow> \<lparr>eff_boostForce = None, eff_bounceForce = None,
                       eff_checkpointIndex = Some (checkpointIndex p)\<rparr>
      | _ \<Rightarrow> \<lparr>eff_boostForce = None, eff_bounceForce = None, eff_checkpointIndex = None\<rparr>)"

text \<open>The distance of a coordinate to the nearer of the two faces of the box on one axis.\<close>

definition faceDistance :: "real \<Rightarrow> real \<Rightarrow> real \<Rightarrow> real" where
  "faceDistance a c s = min \<bar>a - (c - s / 2)\<bar> \<bar>a - (c + s / 2)\<bar>"

text \<open>\<open>calculateCollisionNormal\<close>\<close>

definition calculateCollisionNormal :: "Platform \<Rightarrow> Vector3 \<Rightarrow> Vector3" where
  "calculateCollisionNormal p impactPoint =
     (let center = getCenter (boundingBox p);
          size = getSize (boundingBox p);
          dx = faceDistance (vx impactPoint) (vx center) (vx size);
          dy = faceDistance (vy impactPoint) (vy center) (vy size);
          dz = faceDistance (vz impactPoint) (vz center) (vz size);
          n = (if dx < dy \<and> dx < dz then vec (Math_sign (vx impactPoint - vx center)) 0 0
               else if dy < dx \<and> dy < dz then vec 0 (Math_sign (vy impactPoint - vy center)) 0
               else vec 0 0 (Math_sign (vz impactPoint - vz center)))
      in normalize n)"

text \<open>\<open>calculatePenetration\<close>\<close>

definition calculatePenetration :: "Platform \<Rightarrow> Vector3 \<Rightarrow> real \<Rightarrow> Vector3 \<Rightarrow> real" where
  "calculatePenetration p pnt r n =
     (let center = getCenter (boundingBox p);
          projected = dot (sub pnt center) n
      in max 0 (r - \<bar>projected\<bar>))"

text \<open>\<open>handlePenetration\<close>: the branch for a sphere already inside the expanded box.\<close>

definition handlePenetration :: "Platform \<Rightarrow> Vector3 \<Rightarrow> real \<Rightarrow> CollisionResult" where
  "handlePenetration p spherePosition sphereRadius =
     (let center = getCenter (boundingBox p);
          n = normalize (sub spherePosition center);
          pen = sphereRadius + 1 / 100
      in \<lparr>collides = True, normal = Some n, penetration = Some pen, time = None,
          point = Some spherePosition, platformType = Some (ptype p),
          platformEffect = Some (getPlatformEffect p)\<rparr>)"

text \<open>\<open>checkStaticSphereCollision\<close>\<close>

definition checkStaticSphereCollision :: "Platform \<Rightarrow> Vector3 \<Rightarrow> real \<Rightarrow> CollisionResult" where
  "checkStaticSphereCollision p spherePosition sphereRadius =
     (let expandedBox = expandByScalar (boundingBox p) sphereRadius in
      if \<not> containsPoint expandedBox spherePosition then noCollision
      else
        let n = calculateCollisionNormal p spherePosition;
            pen = calculatePenetration p spherePosition sphereRadius n
        in \<lparr>collides = True, normal = Some n, penetration = Some (min pen maxPenetration),
            time = None, point = Some spherePosition, platformType = Some (ptype p),
            platformEffect = Some (getPlatformEffect p)\<rparr>)"

text \<open>
  \<open>THREE.Ray\<close>. \<open>Ray.intersectBox\<close> is code of three.js, not of this repository; the
  query takes the ray test as the argument \<open>intersectBox\<close>, which returns the
  intersection point or \<open>None\<close> for \<open>null\<close>. \<open>Ray_intersectBox\<close> below is the test
  of three.js.
\<close>

record Ray =
  origin :: Vector3
  direction :: Vector3

text \<open>
  \<open>checkSphereCollision\<close>. \<open>spherePath.normalize()\<close> normalises \<open>spherePath\<close> in
  place, so the later \<open>spherePath.length()\<close> is the length of the normalised vector.
\<close>

definition checkSphereCollision ::
  "(Ray \<Rightarrow> Box3 \<Rightarrow> Vector3 option) \<Rightarrow> Platform \<Rightarrow> Vector3 \<Rightarrow> real \<Rightarrow> Vector3 \<Rightarrow> real
     \<Rightarrow> CollisionResult" where
  "checkSphereCollision intersectBox p spherePosition sphereRadius sphereVelocity deltaTime =
     (if lengthSq sphereVelocity < 1 / 10000 \<and> \<not> isMoving p
      then checkStaticSphereCollision p spherePosition sphereRadius
      else
        let relativeVelocity = sub sphereVelocity (platVelocity p);
            spherePath = normalize (multiplyScalar relativeVelocity deltaTime);
            sphereStart = spherePosition;
            expandedBox = expandByScalar (boundingBox p) sphereRadius;
            ray = \<lparr>origin = sphereStart, direction = spherePath\<rparr>
        in case intersectBox ray expandedBox of
             None \<Rightarrow>
               if containsPoint expandedBox sphereStart
               then handlePenetration p sphereStart sphereRadius
               else noCollision
           | Some intersectionPoint \<Rightarrow>
               let pathLength = length3 spherePath in
               if pathLength < 1 / 10000 then noCollision
               else
                 let timeOfImpact = distanceTo sphereStart intersectionPoint / pathLength in
                 if timeOfImpact > 1 \<or> timeOfImpact < 0 then noCollision
                 else
                   let impactPoint = intersectionPoint;
                       n = calculateCollisionNormal p impactPoint;
                       pen = calculatePenetration p impactPoint sphereRadius n
                   in \<lparr>collides = True, normal = Some n,
                       penetration = Some (min pen maxPenetration),
                       time = Some timeOfImpact, point = Some impactPoint,
                       platformType = Some (ptype p),
                       platformEffect = Some (getPlatformEffect p)\<rparr>)"

section \<open>three.js: the ray test\<close>

text \<open>
  The values that three.js computes with in \<open>Ray.intersectBox\<close>: finite numbers, and
  the infinities and NaN that arise from \<open>1 / 0\<close> and from products with it.
\<close>

datatype xnum = Fin real | PInf | MInf | NaN

text \<open>
  \<open>1 / direction.x\<close>: dividing by a zero component gives \<open>+Infinity\<close>. A zero of this
  model is the positive zero; with a negative zero the source computes the same pair of
  bounds for an origin strictly between the two planes of the axis, and for an origin on
  a plane the NaN is the other bound of the pair.
\<close>

definition invdir :: "real \<Rightarrow> xnum" where
  "invdir d = (if d = 0 then PInf else Fin (1 / d))"

text \<open>
  The product of a finite number and such a value; \<open>0 * Infinity\<close> is NaN.
\<close>

definition xtimes :: "real \<Rightarrow> xnum \<Rightarrow> xnum" where
  "xtimes a x =
     (case x of
        Fin b \<Rightarrow> Fin (a * b)
      | PInf \<Rightarrow> if a > 0 then PInf else if a < 0 then MInf else NaN
      | MInf \<Rightarrow> if a > 0 then MInf else if a < 0 then PInf else NaN
      | NaN \<Rightarrow> NaN)"

text \<open>
  \<open>x > y\<close> and \<open>x < y\<close>; a comparison with NaN is false.
\<close>

fun gt :: "xnum \<Rightarrow> xnum \<Rightarrow> bool" where
  "gt NaN y = False"
| "gt x NaN = False"
| "gt (Fin a) (Fin b) = (a > b)"
| "gt PInf PInf = False"
| "gt PInf y = True"
| "gt x PInf = False"
| "gt MInf y = False"
| "gt (Fin a) MInf = True"

definition lt :: "xnum \<Rightarrow> xnum \<Rightarrow> bool" where
  "lt x y = gt y x"

text \<open>
  \<open>x >= 0\<close> and \<open>isNaN(x)\<close> (also written \<open>x !== x\<close>).
\<close>

definition ge0 :: "xnum \<Rightarrow> bool" where
  "ge0 x = (case x of Fin a \<Rightarrow> a \<ge> 0 | PInf \<Rightarrow> True | MInf \<Rightarrow> False | NaN \<Rightarrow> False)"

definition isNaN :: "xnum \<Rightarrow> bool" where
  "isNaN x = (x = NaN)"

text \<open>
  The pair \<open>(tmin, tmax)\<close> of one axis: the ray parameters at which the ray crosses the
  two planes of the box on that axis.
\<close>

definition slab :: "real \<Rightarrow> real \<Rightarrow> real \<Rightarrow> real \<Rightarrow> xnum \<times> xnum" where
  "slab lo hi org d =
     (let inv = invdir d in
      if ge0 inv then (xtimes (lo - org) inv, xtimes (hi - org) inv)
      else (xtimes (hi - org) inv, xtimes (lo - org) inv))"

text \<open>
  \<open>Ray.at(t)\<close>. A parameter that is not finite is only reached with the zero direction
  and gives a point with NaN coordinates in the source; the model returns the origin, and
  the query discards the point then (its path length is 0).
\<close>

definition rayAt :: "Ray \<Rightarrow> xnum \<Rightarrow> Vector3" where
  "rayAt ray t =
     (case t of Fin a \<Rightarrow> add (origin ray) (multiplyScalar (direction ray) a) | _ \<Rightarrow> origin ray)"

text \<open>
  \<open>Ray.intersectBox\<close>, modelled from three.js: the slab test, returning \<open>None\<close> for
  \<open>null\<close> and otherwise the point at \<open>tmin\<close>, or at \<open>tmax\<close> when \<open>tmin\<close> is
  negative.
\<close>

definition Ray_intersectBox :: "Ray \<Rightarrow> Box3 \<Rightarrow> Vector3 option" where
  "Ray_intersectBox ray box =
     (let (tmin, tmax) = slab (vx (bmin box)) (vx (bmax box)) (vx (origin ray)) (vx (direction ray));
          (tymin, tymax) = slab (vy (bmin box)) (vy (bmax box)) (vy (origin ray)) (vy (direction ray))
      in if gt tmin tymax \<or> gt tymin tmax then None
         else
           let tmin1 = (if gt tymin tmin \<or> isNaN tmin then tymin else tmin);
               tmax1 = (if lt tymax tmax \<or> isNaN tmax then tymax else tmax);
               (tzmin, tzmax) = slab (vz (bmin box)) (vz (bmax box)) (vz (origin ray))
                                  (vz (direction ray))
           in if gt tmin1 tzmax \<or> gt tzmin tmax1 then None
              else
                let tmin2 = (if gt tzmin tmin1 \<or> isNaN tmin1 then tzmin else tmin1);
                    tmax2 = (if lt tzmax tmax1 \<or> isNaN tmax1 then tzmax else tmax1)
                in if lt tmax2 (Fin 0) then None
                   else Some (rayAt ray (if ge0 tmin2 then tmin2 else tmax2)))"

text \<open>
  The values of the ray test at an origin inside the box: a lower bound that is not
  positive, an upper bound that is not negative, or NaN.
\<close>

definition nonpos :: "xnum \<Rightarrow> bool" where
  "nonpos x = (case x of Fin a \<Rightarrow> a \<le> 0 | PInf \<Rightarrow> False | MInf \<Rightarrow> True | NaN \<Rightarrow> True)"

definition nonneg :: "xnum \<Rightarrow> bool" where
  "nonneg x = (case x of Fin a \<Rightarrow> a \<ge> 0 | PInf \<Rightarrow> True | MInf \<Rightarrow> False | NaN \<Rightarrow> True)"

section \<open>GameEngine: collision response\<close>

text \<open>
  The engine's own record of a body (\<open>GameEngine.objects\<close>): the mesh, a velocity and the
  restitution. \<open>addPhysicsObject\<close> shares the mesh with \<open>PhysicsService\<close> and creates
  the velocity as a vector of the engine's own; the collision response reads and writes
  this velocity.
\<close>

record EngineObject =
  eo_mesh :: Mesh
  eo_velocity :: Vector3
  eo_restitution :: real

text \<open>
  The services the engine holds, and a call of a method of one of them. The response to
  a collision is modelled with the list of the calls it makes.
\<close>

datatype Service =
  ErrorSvc | RendererSvc | PhysicsSvc | DebugSvc | InputSvc | LevelSvc | TrackEditorSvc

datatype Call = Call Service string

text \<open>
  The state that the callback of \<open>platforms.forEach\<close> in \<open>GameEngine.update\<close> reads
  and writes: the body, the local \<open>isOnPlatform\<close>, and the calls made so far.
\<close>

record Response =
  body :: EngineObject
  isOnPlatform :: bool
  calls :: "Call list"

text \<open>\<open>if (boostForce) { ... }\<close>\<close>

definition applyBoost :: "real option \<Rightarrow> Vector3 \<times> Call list \<Rightarrow> Vector3 \<times> Call list" where
  "applyBoost force s =
     (case force of
        None \<Rightarrow> s
      | Some f \<Rightarrow>
          if f \<noteq> 0
          then (let moveDir = normalize (fst s)
                in (add (fst s) (multiplyScalar moveDir (f * 10)),
                    snd s @ [Call DebugSvc ''Boost applied'']))
          else s)"

text \<open>\<open>if (bounceForce) { ... }\<close>\<close>

definition applyBounce :: "real option \<Rightarrow> Vector3 \<times> Call list \<Rightarrow> Vector3 \<times> Call list" where
  "applyBounce force s =
     (case force of
        None \<Rightarrow> s
      | Some f \<Rightarrow>
          if f \<noteq> 0
          then ((fst s)\<lparr>vy := \<bar>vy (fst s)\<bar> * f * 2\<rparr>, snd s @ [Call DebugSvc ''Bounce applied''])
          else s)"

text \<open>
  \<open>if (collision.platformEffect) { const { boostForce, bounceForce } = ...; ... }\<close>:
  the only two fields of the payload that the engine reads.
\<close>

definition applyEffects :: "PlatformEffect option \<Rightarrow> Vector3 \<times> Call list \<Rightarrow> Vector3 \<times> Call list" where
  "applyEffects effect s =
     (case effect of
        None \<Rightarrow> s
      | Some e \<Rightarrow> applyBounce (eff_bounceForce e) (applyBoost (eff_boostForce e) s))"

text \<open>
  The part under \<open>if (dot < 0)\<close>: reflection and restitution, penetration resolution,
  platform carry, friction.
\<close>

definition reflect :: "CollisionResult \<Rightarrow> Vector3 \<Rightarrow> Vector3 \<Rightarrow> bool \<Rightarrow> real \<Rightarrow> EngineObject \<Rightarrow> EngineObject" where
  "reflect collision n platformVel onPlatform d object =
     (let v2 = multiplyScalar (add (eo_velocity object) (multiplyScalar n (- 2 * d)))
                 (eo_restitution object);
          pos = (if truthy (penetration collision)
                 then add (position (eo_mesh object)) (multiplyScalar n (nullish (penetration collision) 0))
                 else position (eo_mesh object));
          v3 = (if length3 platformVel > 0 then add v2 (multiplyScalar platformVel (4/5)) else v2);
          v4 = (if onPlatform then v3\<lparr>vx := vx v3 * (4/5), vz := vz v3 * (4/5)\<rparr> else v3)
      in object\<lparr>eo_mesh := (eo_mesh object)\<lparr>position := pos\<rparr>, eo_velocity := v4\<rparr>)"

text \<open>
  The callback of \<open>platforms.forEach\<close>, after the query: \<open>collision\<close> is the result of
  \<open>checkSphereCollision\<close> and \<open>platformVel\<close> is \<open>platform.getVelocity()\<close>.
\<close>

definition respond :: "CollisionResult \<Rightarrow> Vector3 \<Rightarrow> Response \<Rightarrow> Response" where
  "respond collision platformVel st =
     (case normal collision of
        None \<Rightarrow> st
      | Some n \<Rightarrow>
          if \<not> collides collision then st
          else
            let onPlatform = vy n > 1/2;
                (v1, calls1) = applyEffects (platformEffect collision)
                                 (eo_velocity (body st), calls st);
                object1 = (body st)\<lparr>eo_velocity := v1\<rparr>;
                d = dot v1 n
            in \<lparr>body = (if d < 0 then reflect collision n platformVel onPlatform d object1
                        else object1),
                isOnPlatform = onPlatform,
                calls = calls1\<rparr>)"

text \<open>
  One platform of the loop: the query at the body's position before the loop
  (\<open>position\<close> is a clone taken once) and with its current velocity, then the response.
\<close>

definition handlePlatform ::
  "(Ray \<Rightarrow> Box3 \<Rightarrow> Vector3 option) \<Rightarrow> real \<Rightarrow> Vector3 \<Rightarrow> real \<Rightarrow> Response \<Rightarrow> Platform \<Rightarrow> Response" where
  "handlePlatform intersectBox dt pos r st platform =
     respond (checkSphereCollision intersectBox platform pos r (eo_velocity (body st)) dt)
       (platVelocity platform) st"

text \<open>
  \<open>platforms.forEach\<close> for one body, over the platforms of the level in the order of the
  map.
\<close>

definition handlePlatforms ::
  "(Ray \<Rightarrow> Box3 \<Rightarrow> Vector3 option) \<Rightarrow> real \<Rightarrow> (string \<times> Platform) list \<Rightarrow> EngineObject \<Rightarrow> Response" where
  "handlePlatforms intersectBox dt platforms object =
     foldl (handlePlatform intersectBox dt (position (eo_mesh object)) (radius (eo_mesh object)))
       \<lparr>body = object, isOnPlatform = False, calls = []\<rparr> (map snd platforms)"

section \<open>GameEngine: the bodies of the engine and the integrator\<close>

text \<open>
  \<open>LevelService.constrainPosition\<close> with the track configuration of the constructor
  (width 20, length 100). The source writes the result into its argument and returns
  that same vector.
\<close>

definition constrainPosition :: "Vector3 \<Rightarrow> Vector3" where
  "constrainPosition p =
     \<lparr>vx = max (- 10) (min 10 (vx p)), vy = max 0 (vy p), vz = max (- 100) (min 0 (vz p))\<rparr>"

text \<open>The block under \<open>if (!position.equals(constrainedPosition))\<close>.\<close>

definition reflectAtBounds :: "Vector3 \<Rightarrow> Vector3 \<Rightarrow> EngineObject \<Rightarrow> EngineObject" where
  "reflectAtBounds p constrained object =
     (let v = eo_velocity object;
          v1 = (if vx p \<noteq> vx constrained then v\<lparr>vx := vx v * (- eo_restitution object)\<rparr> else v);
          v2 = (if vy p \<noteq> vy constrained then v1\<lparr>vy := vy v1 * (- eo_restitution object)\<rparr> else v1);
          v3 = (if vz p \<noteq> vz constrained then v2\<lparr>vz := vz v2 * (- eo_restitution object)\<rparr> else v2)
      in object\<lparr>eo_mesh := (eo_mesh object)\<lparr>position := constrained\<rparr>, eo_velocity := v3\<rparr>)"

text \<open>
  The callback of \<open>this.objects.forEach\<close> in \<open>GameEngine.update\<close>: the platform loop,
  then the level bounds. \<open>position\<close> is the clone taken at the start; the call of
  \<open>constrainPosition(position)\<close> overwrites it and returns it, so at the comparison
  \<open>position\<close> and \<open>constrainedPosition\<close> are one vector.
\<close>

definition collideObject ::
  "(Ray \<Rightarrow> Box3 \<Rightarrow> Vector3 option) \<Rightarrow> real \<Rightarrow> (string \<times> Platform) list \<Rightarrow> EngineObject
     \<Rightarrow> EngineObject" where
  "collideObject isect dt plats object =
     (let object1 = body (handlePlatforms isect dt plats object);
          constrainedPosition = constrainPosition (position (eo_mesh object));
          position1 = constrainedPosition
      in if position1 \<noteq> constrainedPosition
         then reflectAtBounds position1 constrainedPosition object1
         else object1)"

text \<open>
  The state of the engine, as far as the bodies go: \<open>PhysicsService\<close> with the objects
  it integrates, the engine's own \<open>objects\<close> map, and the platforms of the level.
\<close>

record GameEngine =
  physicsService :: PhysicsService
  engineObjects :: "string \<rightharpoonup> EngineObject"
  levelPlatforms :: "(string \<times> Platform) list"

text \<open>
  \<open>GameEngine.addPhysicsObject\<close>: the mesh goes to \<open>PhysicsService.addObject\<close>, which
  makes the object it integrates with a velocity of its own, and into the engine's map
  with \<open>velocity: new THREE.Vector3()\<close>, a second vector.
\<close>

definition addPhysicsObject :: "GameEngine \<Rightarrow> Mesh \<Rightarrow> string \<Rightarrow> ObjectOptions \<Rightarrow> GameEngine" where
  "addPhysicsObject g m ident options =
     g\<lparr>physicsService := addObject (physicsService g) ident m options,
       engineObjects := (engineObjects g)(ident \<mapsto>
         \<lparr>eo_mesh = m, eo_velocity = vec 0 0 0,
          eo_restitution = nullish (opt_restitution options) (1/2)\<rparr>)\<rparr>"

text \<open>\<open>GameEngine.applyImpulse\<close> hands the impulse to \<open>PhysicsService\<close>.\<close>

definition engineApplyImpulse :: "GameEngine \<Rightarrow> string \<Rightarrow> Vector3 \<Rightarrow> GameEngine" where
  "engineApplyImpulse g ident force =
     g\<lparr>physicsService := applyImpulse (physicsService g) ident force\<rparr>"

text \<open>
  The mesh is one object shared by the two records of a body: what the collision
  response writes into \<open>object.mesh.position\<close> is the position the integrator reads.
\<close>

definition shareMesh :: "EngineObject option \<Rightarrow> PhysicsObject \<Rightarrow> PhysicsObject" where
  "shareMesh e object = (case e of None \<Rightarrow> object | Some eo \<Rightarrow> object\<lparr>mesh := eo_mesh eo\<rparr>)"

text \<open>
  \<open>this.objects.forEach(...)\<close> in \<open>GameEngine.update\<close>, on the state of the engine: every
  object of the engine's map goes through the callback, and the meshes it moved are the
  meshes of the integrator's objects.
\<close>

definition collisionPass :: "(Ray \<Rightarrow> Box3 \<Rightarrow> Vector3 option) \<Rightarrow> real \<Rightarrow> GameEngine \<Rightarrow> GameEngine" where
  "collisionPass isect dt g =
     (let collided = (\<lambda>ident. map_option (collideObject isect dt (levelPlatforms g))
                                 (engineObjects g ident))
      in g\<lparr>engineObjects := collided,
           physicsService := (physicsService g)
             \<lparr>objects := (\<lambda>ident. map_option (shareMesh (collided ident))
                                      (objects (physicsService g) ident))\<rparr>\<rparr>)"

text \<open>
  \<open>this.physicsService.update(cappedDeltaTime)\<close> on the state of the engine: the meshes
  that the integrator moved are the meshes of the engine's objects.
\<close>

definition integratedMesh :: "PhysicsObject option \<Rightarrow> EngineObject \<Rightarrow> EngineObject" where
  "integratedMesh object e = (case object of None \<Rightarrow> e | Some po \<Rightarrow> e\<lparr>eo_mesh := mesh po\<rparr>)"

definition integrate :: "real \<Rightarrow> GameEngine \<Rightarrow> GameEngine" where
  "integrate dt g =
     (let svc = update (physicsService g) dt
      in g\<lparr>physicsService := svc,
           engineObjects := (\<lambda>ident. map_option (integratedMesh (objects svc ident))
                                        (engineObjects g ident))\<rparr>)"

text \<open>
  \<open>GameEngine.update\<close> from \<open>this.physicsService.update(cappedDeltaTime)\<close> on: the
  integrator, then the collision loop. The two calls before them change no body when
  the platforms are static (\<open>Platform.update\<close> returns at once) and no key is pressed
  (\<open>handleInput\<close> applies no impulse).
\<close>

definition updateBodies :: "(Ray \<Rightarrow> Box3 \<Rightarrow> Vector3 option) \<Rightarrow> real \<Rightarrow> GameEngine \<Rightarrow> GameEngine" where
  "updateBodies isect deltaTime g =
     (let dt = cappedDeltaTime deltaTime in collisionPass isect dt (integrate dt g))"

text \<open>
  The velocity that the integrator holds for a body, the one the engine holds, and the
  position of the body's mesh.
\<close>

definition bodyVelocity :: "GameEngine \<Rightarrow> string \<Rightarrow> Vector3 option" where
  "bodyVelocity g ident = map_option velocity (objects (physicsService g) ident)"

definition engineVelocity :: "GameEngine \<Rightarrow> string \<Rightarrow> Vector3 option" where
  "engineVelocity g ident = map_option eo_velocity (engineObjects g ident)"

definition bodyPosition :: "GameEngine \<Rightarrow> string \<Rightarrow> Vector3 option" where
  "bodyPosition g ident = map_option (\<lambda>e. position (eo_mesh e)) (engineObjects g ident)"

section \<open>TrackEditorService: track validation\<close>

text \<open>
  The callback of \<open>platforms.forEach\<close> in \<open>validateTrack\<close>, on the triple
  \<open>(hasStart, hasFinish, checkpoints)\<close>.
\<close>

definition scanPlatform :: "bool \<times> bool \<times> string list \<Rightarrow> string \<times> Platform \<Rightarrow> bool \<times> bool \<times> string list" where
  "scanPlatform s entry =
     (case s of (hasStart, hasFinish, checkpoints) \<Rightarrow>
        (case ptype (snd entry) of
           START \<Rightarrow> (True, hasFinish, checkpoints)
         | FINISH \<Rightarrow> (hasStart, True, checkpoints)
         | CHECKPOINT \<Rightarrow> (hasStart, hasFinish, checkpoints @ [fst entry])
         | _ \<Rightarrow> (hasStart, hasFinish, checkpoints)))"

text \<open>
  \<open>validateTrack\<close>, on the entries of \<open>levelService.getPlatforms()\<close> in the order of
  the map.
\<close>

definition validateTrack :: "(string \<times> Platform) list \<Rightarrow> bool" where
  "validateTrack platforms =
     (case foldl scanPlatform (False, False, []) platforms of
        (hasStart, hasFinish, checkpoints) \<Rightarrow> hasStart \<and> hasFinish \<and> length checkpoints > 0)"

section \<open>Example inputs\<close>

text \<open>A platform of the given type, with the dimensions used by \<open>createTestTrack\<close>.\<close>

definition trackConfig :: "PlatformType \<Rightarrow> PlatformConfig" where
  "trackConfig t =
     \<lparr>cfg_width = 4, cfg_depth = 2, cfg_height = 1/2, cfg_position = vec 0 0 0,
      cfg_isMoving = None, cfg_moveSpeed = None, cfg_moveDistance = None, cfg_moveAxis = None,
      cfg_type = Some t, cfg_boostForce = None, cfg_bounceForce = None,
      cfg_checkpointIndex = None, cfg_isActive = None\<rparr>"

definition trackPlatform :: "PlatformType \<Rightarrow> Platform" where
  "trackPlatform t = Platform_new (trackConfig t)"

definition testTrack :: "(string \<times> Platform) list" where
  "testTrack =
     [(''start'', trackPlatform START), (''platform3'', trackPlatform NORMAL),
      (''checkpoint1'', trackPlatform CHECKPOINT), (''finish'', trackPlatform FINISH)]"

definition twoStartTrack :: "(string \<times> Platform) list" where
  "twoStartTrack =
     [(''start'', trackPlatform START), (''start2'', trackPlatform START),
      (''checkpoint1'', trackPlatform CHECKPOINT), (''finish'', trackPlatform FINISH)]"

text \<open>The number of platforms of a type in a platform set.\<close>

definition countType :: "PlatformType \<Rightarrow> (string \<times> Platform) list \<Rightarrow> nat" where
  "countType t platforms = length (filter (\<lambda>e. ptype (snd e) = t) platforms)"

text \<open>The player ball as \<open>App\<close> adds it: radius 0.5 at \<open>(0, 5, 0)\<close>, at rest.\<close>

definition initialService :: PhysicsService where
  "initialService = \<lparr>objects = Map.empty, config = physicsConfig, errors = []\<rparr>"

definition playerMesh :: Mesh where
  "playerMesh = \<lparr>position = vec 0 5 0, radius = 1/2\<rparr>"

definition playerOptions :: ObjectOptions where
  "playerOptions = \<lparr>opt_mass = Some 1, opt_restitution = Some (7/10), opt_friction = Some (1/10)\<rparr>"

definition playerService :: PhysicsService where
  "playerService = addObject initialService ''player-ball'' playerMesh playerOptions"

definition playerBall :: PhysicsObject where
  "playerBall =
     \<lparr>mesh = playerMesh, velocity = vec 0 0 0, acceleration = vec 0 (- 20) 0, mass = 1,
      restitution = 7/10, friction = 1/10, previousPosition = vec 0 5 0,
      previousVelocity = vec 0 0 0\<rparr>"

text \<open>The ball falling at speed 1, and a ball that has sunk below the floor contact height.\<close>

definition fallingBall :: PhysicsObject where
  "fallingBall = playerBall\<lparr>velocity := vec 0 (- 1) 0\<rparr>"

definition fallingService :: PhysicsService where
  "fallingService = initialService\<lparr>objects := [''player-ball'' \<mapsto> fallingBall]\<rparr>"

definition sinkingBall :: PhysicsObject where
  "sinkingBall = playerBall\<lparr>mesh := \<lparr>position = vec 1 (2/5) 0, radius = 1/2\<rparr>,
                            velocity := vec 2 (- 3) 1\<rparr>"

text \<open>A body lies on or above the floor contact height and inside the side bounds.\<close>

definition withinBounds :: "PhysicsObject \<Rightarrow> bool" where
  "withinBounds object =
     (radius (mesh object) \<le> vy (position (mesh object)) \<and>
      \<bar>vx (position (mesh object))\<bar> \<le> 10 \<and> \<bar>vz (position (mesh object))\<bar> \<le> 10)"

text \<open>A running engine with an empty accumulator, its last frame at time 0.\<close>

definition stalledLoop :: LoopState where
  "stalledLoop = \<lparr>isRunning = True, frameCount = 0, lastFrameTime = 0, accumulator = 0, updates = []\<rparr>"

text \<open>A platform configuration with zero width and depth and a negative height.\<close>

definition degenerateConfig :: PlatformConfig where
  "degenerateConfig =
     \<lparr>cfg_width = 0, cfg_depth = 0, cfg_height = - 1, cfg_position = vec 0 0 0,
      cfg_isMoving = None, cfg_moveSpeed = None, cfg_moveDistance = None, cfg_moveAxis = None,
      cfg_type = None, cfg_boostForce = None, cfg_bounceForce = None,
      cfg_checkpointIndex = None, cfg_isActive = None\<rparr>"

text \<open>Options with a negative mass.\<close>

definition negativeMass :: ObjectOptions where
  "negativeMass = \<lparr>opt_mass = Some (- 1), opt_restitution = None, opt_friction = None\<rparr>"

section \<open>The branches of the collision query\<close>

text \<open>The condition of the early exit of \<open>checkSphereCollision\<close> to the static test.\<close>

definition staticQuery :: "Platform \<Rightarrow> Vector3 \<Rightarrow> bool" where
  "staticQuery p v = (lengthSq v < 1 / 10000 \<and> \<not> isMoving p)"

text \<open>The ray that \<open>checkSphereCollision\<close> casts: from the sphere centre along the normalised
  relative displacement.\<close>

definition sweepRay :: "Platform \<Rightarrow> Vector3 \<Rightarrow> Vector3 \<Rightarrow> real \<Rightarrow> Ray" where
  "sweepRay p pos v dt =
     \<lparr>origin = pos, direction = normalize (multiplyScalar (sub v (platVelocity p)) dt)\<rparr>"

text \<open>The query reaches \<open>handlePenetration\<close>: no static test, the ray misses the expanded box,
  and the sphere centre is inside that box.\<close>

definition fallbackTaken ::
  "(Ray \<Rightarrow> Box3 \<Rightarrow> Vector3 option) \<Rightarrow> Platform \<Rightarrow> Vector3 \<Rightarrow> real \<Rightarrow> Vector3 \<Rightarrow> real \<Rightarrow> bool" where
  "fallbackTaken isect p pos r v dt =
     (\<not> staticQuery p v \<and>
      isect (sweepRay p pos v dt) (expandByScalar (boundingBox p) r) = None \<and>
      containsPoint (expandByScalar (boundingBox p) r) pos)"

text \<open>The result built by the static test and by the swept test at the contact point \<open>q\<close>:
  the normal of \<open>calculateCollisionNormal\<close> and the penetration clamped to
  \<open>maxPenetration\<close>.\<close>

definition clampedResult :: "Platform \<Rightarrow> Vector3 \<Rightarrow> real \<Rightarrow> real option \<Rightarrow> CollisionResult" where
  "clampedResult p q r t =
     \<lparr>collides = True, normal = Some (calculateCollisionNormal p q),
      penetration = Some (min (calculatePenetration p q r (calculateCollisionNormal p q))
                            maxPenetration),
      time = t, point = Some q, platformType = Some (ptype p),
      platformEffect = Some (getPlatformEffect p)\<rparr>"

section \<open>Example collisions\<close>

text \<open>A static platform occupying the cube from \<open>(-1, -1, -1)\<close> to \<open>(1, 1, 1)\<close>.\<close>

definition cubeConfig :: "PlatformType \<Rightarrow> PlatformConfig" where
  "cubeConfig t =
     \<lparr>cfg_width = 2, cfg_depth = 2, cfg_height = 2, cfg_position = vec 0 0 0,
      cfg_isMoving = None, cfg_moveSpeed = None, cfg_moveDistance = None, cfg_moveAxis = None,
      cfg_type = Some t, cfg_boostForce = None, cfg_bounceForce = None,
      cfg_checkpointIndex = Some 2, cfg_isActive = None\<rparr>"

definition cube :: "PlatformType \<Rightarrow> Platform" where
  "cube t = Platform_new (cubeConfig t)"

text \<open>The engine's body of radius 0.5 and restitution 0.7 at a position with a velocity,
  before any platform is handled.\<close>

definition bodyAt :: "Vector3 \<Rightarrow> Vector3 \<Rightarrow> Response" where
  "bodyAt pos v =
     \<lparr>body = \<lparr>eo_mesh = \<lparr>position = pos, radius = 1/2\<rparr>, eo_velocity = v, eo_restitution = 7/10\<rparr>,
      isOnPlatform = False, calls = []\<rparr>"

section \<open>Axis vectors\<close>

text \<open>One of \<open>\<plusminus>x\<close>, \<open>\<plusminus>y\<close>, \<open>\<plusminus>z\<close>.\<close>

definition signedUnitAxis :: "Vector3 \<Rightarrow> bool" where
  "signedUnitAxis n =
     (n = vec 1 0 0 \<or> n = vec (- 1) 0 0 \<or> n = vec 0 1 0 \<or> n = vec 0 (- 1) 0 \<or>
      n = vec 0 0 1 \<or> n = vec 0 0 (- 1))"

section \<open>Example: a ball pushed onto a Bounce platform\<close>

text \<open>
  A level with the cube as a Bounce platform; the player ball added on top of it, within
  reach of its expanded box, and then given the impulse \<open>(0, -5, 0)\<close>.
\<close>

definition bounceLevel :: GameEngine where
  "bounceLevel =
     \<lparr>physicsService = initialService, engineObjects = Map.empty,
      levelPlatforms = [(''bounce'', cube BOUNCE)]\<rparr>"

definition droppedBall :: GameEngine where
  "droppedBall =
     engineApplyImpulse
       (addPhysicsObject bounceLevel \<lparr>position = vec 0 (6/5) 0, radius = 1/2\<rparr> ''player-ball''
          playerOptions)
       ''player-ball'' (vec 0 (- 5) 0)"

section \<open>Properties\<close>

subsection \<open>Track validation\<close>

lemma ptype_trackPlatform [simp]: "ptype (trackPlatform t) = t"
  by (simp add: trackPlatform_def trackConfig_def Platform_new_def nullish_def)

lemma scanPlatform_step:
  "scanPlatform (a, b, cs) e =
     (a \<or> ptype (snd e) = START, b \<or> ptype (snd e) = FINISH,
      if ptype (snd e) = CHECKPOINT then cs @ [fst e] else cs)"
  by (cases "ptype (snd e)") (simp_all add: scanPlatform_def)

lemma foldl_scanPlatform:
  "foldl scanPlatform (a, b, cs) ps =
     (a \<or> countType START ps > 0, b \<or> countType FINISH ps > 0,
      cs @ map fst (filter (\<lambda>e. ptype (snd e) = CHECKPOINT) ps))"
proof (induction ps arbitrary: a b cs)
  case Nil
  then show ?case by (simp add: countType_def)
next
  case (Cons e ps)
  have "foldl scanPlatform (a, b, cs) (e # ps) = foldl scanPlatform (scanPlatform (a, b, cs) e) ps"
    by simp
  also have "\<dots> = foldl scanPlatform (a \<or> ptype (snd e) = START, b \<or> ptype (snd e) = FINISH,
      if ptype (snd e) = CHECKPOINT then cs @ [fst e] else cs) ps"
    by (simp only: scanPlatform_step)
  finally show ?case
    by (simp add: Cons.IH) (auto simp: countType_def)
qed

text \<open>
  C4, as the code has it: \<open>validateTrack\<close> returns true exactly when the platform set
  holds at least one Start, at least one Finish and at least one Checkpoint platform.
  The number of Start platforms is not bounded from above.
\<close>

theorem validateTrack_iff:
  "validateTrack platforms \<longleftrightarrow>
     countType START platforms \<ge> 1 \<and> countType FINISH platforms \<ge> 1 \<and>
     countType CHECKPOINT platforms \<ge> 1"
  by (simp add: validateTrack_def foldl_scanPlatform) (auto simp: countType_def Suc_le_eq)

theorem validateTrack_iff_witness:
  "validateTrack testTrack \<and> countType START testTrack = 1 \<and>
   countType FINISH testTrack = 1 \<and> countType CHECKPOINT testTrack = 1"
  using validateTrack_iff [of testTrack]
  by (simp add: testTrack_def countType_def)

text \<open>
  C4 as stated fails: a set with two Start platforms, a Checkpoint and a Finish is
  accepted.
\<close>

theorem validateTrack_two_starts:
  "\<not> (validateTrack twoStartTrack \<longleftrightarrow>
        countType START twoStartTrack = 1 \<and> countType FINISH twoStartTrack \<ge> 1 \<and>
        countType CHECKPOINT twoStartTrack \<ge> 1)"
  by (simp add: validateTrack_def twoStartTrack_def scanPlatform_step countType_def)

subsection \<open>The integrator\<close>

lemma length3_zero: "length3 (vec 0 0 0) = 0"
  by (simp add: length3_def vec_def)

lemma subSteps_previous:
  "subSteps cfg (object\<lparr>previousPosition := a, previousVelocity := b\<rparr>) dt = subSteps cfg object dt"
  by (simp add: subSteps_def)

lemma updateOne_rest:
  assumes "velocity object = vec 0 0 0" and "0 \<le> maxPredictionSteps cfg"
  shows "subSteps cfg object dt = 0"
    and "position (mesh (updateOne cfg dt object)) = position (mesh object)"
    and "velocity (updateOne cfg dt object) = velocity object"
proof -
  show s: "subSteps cfg object dt = 0"
    using assms by (simp add: subSteps_def length3_zero)
  have "iterations (subSteps cfg (object\<lparr>previousPosition := position (mesh object),
      previousVelocity := velocity object\<rparr>) dt) = 0"
    by (simp only: subSteps_previous s) (simp add: iterations_def)
  then show "position (mesh (updateOne cfg dt object)) = position (mesh object)"
    and "velocity (updateOne cfg dt object) = velocity object"
    by (simp_all add: updateOne_def Let_def)
qed

lemma playerService_ball: "objects playerService ''player-ball'' = Some playerBall"
  by (simp add: playerService_def addObject_def initialService_def playerBall_def
      playerOptions_def playerMesh_def nullish_def physicsConfig_def)

text \<open>
  C9: for a body whose velocity is zero when \<open>PhysicsService.update\<close> is called, the
  sub-step count is 0, the sub-step loop does not run, and the call leaves the body's
  position and velocity as they were, whatever its acceleration is.
\<close>

theorem update_body_at_rest:
  assumes "objects svc ident = Some object"
    and "velocity object = vec 0 0 0"
    and "0 \<le> maxPredictionSteps (config svc)"
  shows "subSteps (config svc) object deltaTime = 0 \<and>
         iterations (subSteps (config svc) object deltaTime) = 0 \<and>
         (\<exists>object'. objects (update svc deltaTime) ident = Some object' \<and>
            position (mesh object') = position (mesh object) \<and>
            velocity object' = velocity object)"
  using assms updateOne_rest [of object "config svc" deltaTime]
  by (simp add: update_def iterations_def)

theorem update_body_at_rest_witness:
  "objects playerService ''player-ball'' = Some playerBall \<and>
   velocity playerBall = vec 0 0 0 \<and>
   acceleration playerBall = vec 0 (- 20) 0 \<and>
   maxPredictionSteps (config playerService) = 3 \<and>
   (\<exists>object'. objects (update playerService (1/60)) ''player-ball'' = Some object' \<and>
      position (mesh object') = vec 0 5 0 \<and> velocity object' = vec 0 0 0)"
proof -
  have v: "velocity playerBall = vec 0 0 0" by (simp add: playerBall_def)
  have c: "maxPredictionSteps (config playerService) = 3"
    by (simp add: playerService_def addObject_def initialService_def physicsConfig_def)
  then have c': "0 \<le> maxPredictionSteps (config playerService)" by simp
  show ?thesis
    using update_body_at_rest [OF playerService_ball v c', of "1/60"] c
    by (simp add: playerBall_def playerMesh_def playerService_ball)
qed

lemma updateObject_radius: "radius (mesh (updateObject cfg object dt)) = radius (mesh object)"
  by (simp add: updateObject_def Let_def)

lemma checkFloor_radius: "radius (mesh (checkFloor cfg object)) = radius (mesh object)"
  by (simp add: checkFloor_def Let_def)

lemma checkBoundX_radius: "radius (mesh (checkBoundX object)) = radius (mesh object)"
  by (simp add: checkBoundX_def Let_def)

lemma checkBoundZ_radius: "radius (mesh (checkBoundZ object)) = radius (mesh object)"
  by (simp add: checkBoundZ_def Let_def)

lemma checkBounds_radius: "radius (mesh (checkBounds cfg object)) = radius (mesh object)"
  by (simp add: checkBounds_def checkFloor_radius checkBoundX_radius checkBoundZ_radius)

lemma checkFloor_y: "radius (mesh object) \<le> vy (position (mesh (checkFloor cfg object)))"
  by (simp add: checkFloor_def Let_def)

lemma checkBoundX_y: "vy (position (mesh (checkBoundX object))) = vy (position (mesh object))"
  by (simp add: checkBoundX_def Let_def)

lemma checkBoundZ_y: "vy (position (mesh (checkBoundZ object))) = vy (position (mesh object))"
  by (simp add: checkBoundZ_def Let_def)

lemma checkBoundZ_x: "vx (position (mesh (checkBoundZ object))) = vx (position (mesh object))"
  by (simp add: checkBoundZ_def Let_def)

lemma checkBoundX_x: "\<bar>vx (position (mesh (checkBoundX object)))\<bar> \<le> 10"
  by (simp add: checkBoundX_def Let_def Math_sign_def)

lemma checkBoundZ_z: "\<bar>vz (position (mesh (checkBoundZ object)))\<bar> \<le> 10"
  by (simp add: checkBoundZ_def Let_def Math_sign_def)

lemma checkBounds_within: "withinBounds (checkBounds cfg object)"
  unfolding withinBounds_def checkBounds_def
  using checkFloor_y [of object cfg]
  by (simp add: checkBoundZ_y checkBoundX_y checkBoundZ_x checkBoundX_x checkBoundZ_z
      checkBoundZ_radius checkBoundX_radius checkFloor_radius)

lemma stepLoop_within: "0 < n \<Longrightarrow> withinBounds (stepLoop cfg sd n object)"
proof (induction n arbitrary: object)
  case 0
  then show ?case by simp
next
  case (Suc n)
  show ?case
  proof (cases n)
    case 0
    then show ?thesis by (simp add: checkBounds_within)
  next
    case (Suc m)
    then have "0 < n" by simp
    from Suc.IH [OF this] show ?thesis by simp
  qed
qed

lemma updateOne_within:
  assumes "0 < iterations (subSteps cfg object dt)"
  shows "withinBounds (updateOne cfg dt object)"
proof -
  have "0 < iterations (subSteps cfg (object\<lparr>previousPosition := position (mesh object),
      previousVelocity := velocity object\<rparr>) dt)"
    using assms by (simp only: subSteps_previous)
  then show ?thesis
    by (simp add: updateOne_def Let_def stepLoop_within)
qed

text \<open>
  C10: when \<open>PhysicsService.update\<close> runs at least one sub-step for a body, the body
  ends with \<open>position.y\<close> at or above its radius and with \<open>|position.x|\<close> and
  \<open>|position.z|\<close> at most 10.
\<close>

theorem update_within_bounds:
  assumes "objects svc ident = Some object"
    and "0 < iterations (subSteps (config svc) object deltaTime)"
  shows "\<exists>object'. objects (update svc deltaTime) ident = Some object' \<and>
           radius (mesh object') \<le> vy (position (mesh object')) \<and>
           \<bar>vx (position (mesh object'))\<bar> \<le> 10 \<and> \<bar>vz (position (mesh object'))\<bar> \<le> 10"
  using assms updateOne_within [of "config svc" object deltaTime]
  by (simp add: update_def withinBounds_def)

lemma length3_nonneg: "0 \<le> length3 a"
  by (simp add: length3_def)

lemma length3_eq_0_iff: "length3 a = 0 \<longleftrightarrow> vx a = 0 \<and> vy a = 0 \<and> vz a = 0"
  by (simp add: length3_def add_nonneg_eq_0_iff)

lemma substep_runs_iff:
  "0 < iterations (subSteps physicsConfig object dt) \<longleftrightarrow>
     (vx (velocity object) \<noteq> 0 \<or> vy (velocity object) \<noteq> 0 \<or> vz (velocity object) \<noteq> 0) \<and> 0 < dt"
proof -
  have "0 < iterations (subSteps physicsConfig object dt) \<longleftrightarrow> 0 < length3 (velocity object) * dt"
    by (simp add: iterations_def subSteps_def physicsConfig_def min_def)
  also have "\<dots> \<longleftrightarrow> 0 < length3 (velocity object) \<and> 0 < dt"
    using length3_nonneg [of "velocity object"] by (auto simp: zero_less_mult_iff)
  also have "0 < length3 (velocity object) \<longleftrightarrow> length3 (velocity object) \<noteq> 0"
    using length3_nonneg [of "velocity object"] by linarith
  finally show ?thesis by (simp add: length3_eq_0_iff)
qed

theorem update_within_bounds_witness:
  "objects fallingService ''player-ball'' = Some fallingBall \<and>
   0 < iterations (subSteps (config fallingService) fallingBall (1/60)) \<and>
   (\<exists>object'. objects (update fallingService (1/60)) ''player-ball'' = Some object' \<and>
           radius (mesh object') \<le> vy (position (mesh object')) \<and>
           \<bar>vx (position (mesh object'))\<bar> \<le> 10 \<and> \<bar>vz (position (mesh object'))\<bar> \<le> 10)"
proof -
  have o: "objects fallingService ''player-ball'' = Some fallingBall"
    by (simp add: fallingService_def)
  have "config fallingService = physicsConfig"
    by (simp add: fallingService_def initialService_def)
  then have i: "0 < iterations (subSteps (config fallingService) fallingBall (1/60))"
    by (simp add: substep_runs_iff fallingBall_def vec_def)
  show ?thesis
    using update_within_bounds [OF o i] o i by simp
qed

lemma checkBoundX_velocity:
  "velocity (checkBoundX object) =
     (velocity object)\<lparr>vx := vx (velocity object) *
        (if \<bar>vx (position (mesh object))\<bar> > 10 then - restitution object else 1)\<rparr>"
  by (simp add: checkBoundX_def Let_def)

lemma checkBoundZ_velocity:
  "velocity (checkBoundZ object) =
     (velocity object)\<lparr>vz := vz (velocity object) *
        (if \<bar>vz (position (mesh object))\<bar> > 10 then - restitution object else 1)\<rparr>"
  by (simp add: checkBoundZ_def Let_def)

lemma checkBoundX_restitution: "restitution (checkBoundX object) = restitution object"
  by (simp add: checkBoundX_def Let_def)

lemma checkBoundX_z: "vz (position (mesh (checkBoundX object))) = vz (position (mesh object))"
  by (simp add: checkBoundX_def Let_def)

lemma checkFloor_crossing:
  assumes "vy (position (mesh object)) - radius (mesh object) < 0"
  shows "checkFloor physicsConfig object =
     object\<lparr>mesh := (mesh object)\<lparr>position := (position (mesh object))\<lparr>vy := radius (mesh object)\<rparr>\<rparr>,
            velocity :=
              (if \<bar>vy (velocity object)\<bar> > 1/10
               then \<lparr>vx = vx (velocity object) * (1 - friction object),
                     vy = \<bar>vy (velocity object)\<bar> * restitution object,
                     vz = vz (velocity object) * (1 - friction object)\<rparr>
               else (velocity object)\<lparr>vy := 0\<rparr>)\<rparr>"
  using assms by (simp add: checkFloor_def Let_def physicsConfig_def)

text \<open>
  C2: when the body's lower extent is below \<open>y = 0\<close> after a sub-step's integration,
  \<open>checkBounds\<close> sets \<open>position.y\<close> to the radius; above the bounce threshold 0.1
  it sets \<open>velocity.y\<close> to \<open>|velocity.y| * restitution\<close> and multiplies
  \<open>velocity.x\<close> and \<open>velocity.z\<close> by \<open>1 - friction\<close> (the side bounds that
  follow multiply a component by \<open>- restitution\<close> as well when the body is beyond
  \<open>\<plusminus>10\<close> on that axis); otherwise it sets \<open>velocity.y\<close> to 0.
\<close>

theorem checkBounds_floor_contact:
  assumes "vy (position (mesh object)) - radius (mesh object) < 0"
  shows "vy (position (mesh (checkBounds physicsConfig object))) = radius (mesh object) \<and>
         (if \<bar>vy (velocity object)\<bar> > 1/10
          then vy (velocity (checkBounds physicsConfig object))
                 = \<bar>vy (velocity object)\<bar> * restitution object \<and>
               vx (velocity (checkBounds physicsConfig object))
                 = vx (velocity object) * (1 - friction object)
                   * (if \<bar>vx (position (mesh object))\<bar> > 10 then - restitution object else 1) \<and>
               vz (velocity (checkBounds physicsConfig object))
                 = vz (velocity object) * (1 - friction object)
                   * (if \<bar>vz (position (mesh object))\<bar> > 10 then - restitution object else 1)
          else vy (velocity (checkBounds physicsConfig object)) = 0)"
  unfolding checkBounds_def
  by (simp add: checkBoundZ_y checkBoundX_y checkBoundZ_velocity checkBoundX_velocity
      checkBoundX_restitution checkBoundX_z checkFloor_crossing [OF assms])

theorem checkBounds_floor_contact_witness:
  "vy (position (mesh sinkingBall)) - radius (mesh sinkingBall) < 0 \<and>
   position (mesh (checkBounds physicsConfig sinkingBall)) = vec 1 (1/2) 0 \<and>
   velocity (checkBounds physicsConfig sinkingBall) = vec (9/5) (21/10) (9/10)"
proof -
  have h: "vy (position (mesh sinkingBall)) - radius (mesh sinkingBall) < 0"
    by (simp add: sinkingBall_def vec_def)
  have "vx (position (mesh (checkBounds physicsConfig sinkingBall))) = 1"
    "vz (position (mesh (checkBounds physicsConfig sinkingBall))) = 0"
    by (simp_all add: checkBounds_def checkBoundZ_def checkBoundX_def checkFloor_def Let_def
        sinkingBall_def vec_def)
  then show ?thesis
    using checkBounds_floor_contact [OF h] h
    by (simp add: sinkingBall_def playerBall_def vec_def Vector3.equality)
qed

subsection \<open>The fixed-step loop\<close>

lemma cappedDeltaTime_fixed: "cappedDeltaTime fixedTimeStep = 1 / 60"
  by (simp add: cappedDeltaTime_def fixedTimeStep_def)

lemma drain_eq:
  "drain acc trace =
     (acc - real (nat \<lfloor>acc * 60\<rfloor>) / 60, trace @ replicate (nat \<lfloor>acc * 60\<rfloor>) (1 / 60))"
proof (induction acc trace rule: drain.induct)
  case (1 acc trace)
  show ?case
  proof (cases "fixedTimeStep \<le> acc")
    case True
    have e: "(acc - fixedTimeStep) * 60 = acc * 60 - 1"
      by (simp add: fixedTimeStep_def algebra_simps)
    have f: "1 \<le> \<lfloor>acc * 60\<rfloor>"
      using True by (simp add: fixedTimeStep_def le_floor_iff)
    then obtain k where k: "nat \<lfloor>acc * 60\<rfloor> = Suc k"
      by (metis Suc_pred' zero_less_nat_eq zero_less_one_class.zero_less_one less_le_trans)
    have "\<lfloor>(acc - fixedTimeStep) * 60\<rfloor> = \<lfloor>acc * 60\<rfloor> - 1"
      by (simp only: e floor_diff_one)
    with k have k': "nat \<lfloor>(acc - fixedTimeStep) * 60\<rfloor> = k"
      by linarith
    have "drain acc trace = drain (acc - fixedTimeStep) (trace @ [cappedDeltaTime fixedTimeStep])"
      using True by (subst drain.simps) simp
    also have "\<dots> = (acc - fixedTimeStep - real k / 60, (trace @ [1 / 60]) @ replicate k (1 / 60))"
      using "1.IH" [OF True] by (simp only: k' cappedDeltaTime_fixed)
    finally show ?thesis
      by (simp add: k fixedTimeStep_def field_simps)
  next
    case False
    then have "\<lfloor>acc * 60\<rfloor> \<le> 0"
      by (simp add: fixedTimeStep_def floor_le_iff)
    then have "nat \<lfloor>acc * 60\<rfloor> = 0" by simp
    moreover have "drain acc trace = (acc, trace)"
      using False by (subst drain.simps) simp
    ultimately show ?thesis by simp
  qed
qed

text \<open>
  C5 fails on the code: the frame delta goes into the accumulator uncapped. After a frame
  of 0.5 s, starting from an empty accumulator, \<open>gameLoop\<close> calls \<open>update\<close> 30
  times, each with the fixed step \<open>1/60\<close>; a delta capped at 0.1 s would allow 6.
\<close>

theorem gameLoop_stalled_frame:
  "updates (gameLoop stalledLoop 500) = replicate 30 (1 / 60) \<and>
   length (updates (gameLoop stalledLoop 500)) > nat \<lceil>(1 / 10) / fixedTimeStep\<rceil>"
  by (simp add: gameLoop_def stalledLoop_def drain_eq fixedTimeStep_def)

subsection \<open>Construction\<close>

text \<open>
  C8, as the code has it: the constructor of \<open>Platform\<close> keeps the width, height and
  depth it is given, whatever their sign, and \<open>addObject\<close> stores the mass it is given
  (1 when none is given) and reports no error.
\<close>

theorem construction_unchecked:
  "getDimensions (Platform_new cfg) = (cfg_width cfg, cfg_height cfg, cfg_depth cfg) \<and>
   (\<exists>object. objects (addObject svc ident m options) ident = Some object \<and>
      mass object = nullish (opt_mass options) 1) \<and>
   errors (addObject svc ident m options) = errors svc"
  by (simp add: getDimensions_def Platform_new_def addObject_def Let_def)

theorem construction_unchecked_witness:
  "getDimensions (Platform_new (trackConfig START)) = (4, 1/2, 2) \<and>
   (\<exists>object. objects (addObject initialService ''player-ball'' playerMesh playerOptions)
        ''player-ball'' = Some object \<and> mass object = 1) \<and>
   errors (addObject initialService ''player-ball'' playerMesh playerOptions) = []"
  using construction_unchecked [of "trackConfig START" initialService "''player-ball''"
      playerMesh playerOptions]
  by (simp add: trackConfig_def playerOptions_def nullish_def initialService_def)

text \<open>
  C8 as stated fails: a platform of zero width and depth and negative height is built
  with those dimensions, and a body of mass \<open>-1\<close> is stored with that mass; no error
  is recorded.
\<close>

theorem construction_accepts_degenerate:
  "getDimensions (Platform_new degenerateConfig) = (0, - 1, 0) \<and>
   (\<exists>object. objects (addObject initialService ''player-ball'' playerMesh negativeMass) ''player-ball''
        = Some object \<and> mass object = - 1) \<and>
   errors (addObject initialService ''player-ball'' playerMesh negativeMass) = []"
  by (simp add: getDimensions_def Platform_new_def degenerateConfig_def
      addObject_def Let_def negativeMass_def nullish_def initialService_def)

subsection \<open>The collision query\<close>

lemma checkSphereCollision_unfold:
  "checkSphereCollision isect p pos r v dt =
     (if staticQuery p v then checkStaticSphereCollision p pos r
      else case isect (sweepRay p pos v dt) (expandByScalar (boundingBox p) r) of
             None \<Rightarrow> if containsPoint (expandByScalar (boundingBox p) r) pos
                     then handlePenetration p pos r else noCollision
           | Some q \<Rightarrow>
               if length3 (direction (sweepRay p pos v dt)) < 1 / 10000 then noCollision
               else if distanceTo pos q / length3 (direction (sweepRay p pos v dt)) > 1 \<or>
                       distanceTo pos q / length3 (direction (sweepRay p pos v dt)) < 0
                    then noCollision
                    else clampedResult p q r
                           (Some (distanceTo pos q / length3 (direction (sweepRay p pos v dt)))))"
  by (simp add: checkSphereCollision_def staticQuery_def sweepRay_def Let_def clampedResult_def
      split: option.split)

lemma checkSphereCollision_static:
  assumes "staticQuery p v"
  shows "checkSphereCollision isect p pos r v dt = checkStaticSphereCollision p pos r"
  using assms by (simp only: checkSphereCollision_unfold if_True)

lemma checkStaticSphereCollision_inside:
  assumes "containsPoint (expandByScalar (boundingBox p) r) pos"
  shows "checkStaticSphereCollision p pos r = clampedResult p pos r None"
  using assms by (simp add: checkStaticSphereCollision_def Let_def clampedResult_def)

lemma checkStaticSphereCollision_outside:
  assumes "\<not> containsPoint (expandByScalar (boundingBox p) r) pos"
  shows "checkStaticSphereCollision p pos r = noCollision"
  using assms by (simp add: checkStaticSphereCollision_def Let_def)

lemma checkSphereCollision_miss:
  assumes "\<not> staticQuery p v"
    and "isect (sweepRay p pos v dt) (expandByScalar (boundingBox p) r) = None"
  shows "checkSphereCollision isect p pos r v dt =
     (if containsPoint (expandByScalar (boundingBox p) r) pos
      then handlePenetration p pos r else noCollision)"
  using assms by (simp only: checkSphereCollision_unfold if_False option.case)

lemma checkSphereCollision_hit:
  assumes "\<not> staticQuery p v"
    and "isect (sweepRay p pos v dt) (expandByScalar (boundingBox p) r) = Some q"
  shows "checkSphereCollision isect p pos r v dt = noCollision \<or>
         (\<exists>t. checkSphereCollision isect p pos r v dt = clampedResult p q r (Some t))"
  using assms by (simp only: checkSphereCollision_unfold if_False option.case) auto

lemma collides_noCollision: "\<not> collides noCollision"
  by (simp add: noCollision_def)

lemma checkSphereCollision_collides:
  assumes "collides (checkSphereCollision isect p pos r v dt)"
  shows "(fallbackTaken isect p pos r v dt \<and>
            checkSphereCollision isect p pos r v dt = handlePenetration p pos r) \<or>
         (\<not> fallbackTaken isect p pos r v dt \<and>
            (\<exists>q t. checkSphereCollision isect p pos r v dt = clampedResult p q r t))"
proof (cases "staticQuery p v")
  case True
  note st = checkSphereCollision_static [OF True, of isect pos r dt]
  show ?thesis
  proof (cases "containsPoint (expandByScalar (boundingBox p) r) pos")
    case inside: True
    have "checkSphereCollision isect p pos r v dt = clampedResult p pos r None"
      by (simp only: st checkStaticSphereCollision_inside [OF inside])
    with True show ?thesis by (auto simp: fallbackTaken_def)
  next
    case False
    with assms st show ?thesis
      by (simp add: checkStaticSphereCollision_outside collides_noCollision)
  qed
next
  case False
  show ?thesis
  proof (cases "isect (sweepRay p pos v dt) (expandByScalar (boundingBox p) r)")
    case None
    from checkSphereCollision_miss [where isect = isect, OF False None] assms show ?thesis
      by (auto simp: fallbackTaken_def False None collides_noCollision split: if_splits)
  next
    case (Some q)
    from checkSphereCollision_hit [where isect = isect, OF False Some] assms show ?thesis
      by (auto simp: fallbackTaken_def Some collides_noCollision)
  qed
qed

lemma cube_fields:
  "boundingBox (cube t) = \<lparr>bmin = vec (- 1) (- 1) (- 1), bmax = vec 1 1 1\<rparr>"
  "ptype (cube t) = t" "isMoving (cube t) = False" "platVelocity (cube t) = vec 0 0 0"
  "bounceForce (cube t) = 3/2" "boostForce (cube t) = 3/2" "checkpointIndex (cube t) = 2"
  by (simp_all add: cube_def cubeConfig_def Platform_new_def setFromObject_def nullish_def
      orDefault_def sub_def add_def vec_def)

lemma cube_center: "getCenter (boundingBox (cube t)) = vec 0 0 0"
  by (simp add: cube_fields getCenter_def isEmpty_def add_def multiplyScalar_def vec_def)

lemma cube_size: "getSize (boundingBox (cube t)) = vec 2 2 2"
  by (simp add: cube_fields getSize_def isEmpty_def sub_def vec_def)

lemma normalize_axis:
  "normalize (vec 0 (- 1) 0) = vec 0 (- 1) 0" "normalize (vec 0 1 0) = vec 0 1 0"
  "normalize (vec 0 0 0) = vec 0 0 0"
  by (simp_all add: normalize_def length3_def multiplyScalar_def vec_def)

lemma cube_slow_static:
  assumes "\<bar>w\<bar> < 1/100"
  shows "staticQuery (cube t) (vec 0 w 0)"
proof -
  have "\<bar>w\<bar> * \<bar>w\<bar> < (1/100) * (1/100)"
    using assms by (intro mult_strict_mono') simp_all
  then have "w * w < 1 / 10000" by simp
  then show ?thesis
    by (simp add: staticQuery_def lengthSq_def vec_def cube_fields)
qed

text \<open>The static query on the cube, for a slow body on the y axis within reach of it.\<close>

lemma cube_static:
  assumes "\<bar>a\<bar> \<le> 3/2" and "\<bar>w\<bar> < 1/100"
  shows "checkSphereCollision isect (cube t) (vec 0 a 0) (1/2) (vec 0 w 0) dt =
           clampedResult (cube t) (vec 0 a 0) (1/2) None"
proof -
  note s = cube_slow_static [OF assms(2), of t]
  have c: "containsPoint (expandByScalar (boundingBox (cube t)) (1/2)) (vec 0 a 0)"
  proof -
    have "- (3/2) \<le> a" "a \<le> 3/2" using assms(1) by linarith+
    then show ?thesis
      by (simp add: cube_fields expandByScalar_def containsPoint_def add_def vec_def)
  qed
  show ?thesis
    by (simp only: checkSphereCollision_static [OF s] checkStaticSphereCollision_inside [OF c])
qed

lemma cube_normal_above: "calculateCollisionNormal (cube t) (vec 0 (6/5) 0) = vec 0 1 0"
  unfolding calculateCollisionNormal_def cube_center cube_size
  by (simp add: faceDistance_def Math_sign_def vec_def normalize_axis [unfolded vec_def])

lemma collides_result:
  assumes "collides (checkSphereCollision isect p pos r v dt)"
  shows "platformEffect (checkSphereCollision isect p pos r v dt) = Some (getPlatformEffect p)"
    and "platformType (checkSphereCollision isect p pos r v dt) = Some (ptype p)"
    and "normal (checkSphereCollision isect p pos r v dt) \<noteq> None"
  using checkSphereCollision_collides [OF assms]
  by (auto simp: clampedResult_def handlePenetration_def Let_def)

lemma applyEffects_checkpoint:
  "applyEffects (Some \<lparr>eff_boostForce = None, eff_bounceForce = None,
            eff_checkpointIndex = k\<rparr>) s = s"
  by (simp add: applyEffects_def applyBounce_def applyBoost_def)

lemma respond_collides:
  assumes "collides c" and "normal c = Some n"
    and "applyEffects (platformEffect c) (eo_velocity (body st), calls st) = (v1, cs1)"
  shows "respond c pv st =
     \<lparr>body = (if dot v1 n < 0
              then reflect c n pv (vy n > 1/2) (dot v1 n) ((body st)\<lparr>eo_velocity := v1\<rparr>)
              else (body st)\<lparr>eo_velocity := v1\<rparr>),
      isOnPlatform = (vy n > 1/2), calls = cs1\<rparr>"
  using assms by (simp add: respond_def Let_def)

text \<open>
  The constructor stores \<open>config.checkpointIndex || -1\<close>: a configured index 0, as
  \<open>createTestTrack\<close> gives its checkpoint, is stored and carried as \<open>-1\<close>.
\<close>

lemma checkpointIndex_zero:
  "checkpointIndex (Platform_new (cfg\<lparr>cfg_checkpointIndex := Some 0\<rparr>)) = - 1"
  by (simp add: Platform_new_def orDefault_def)

text \<open>
  C6, as the code has it: a collision with a Checkpoint platform carries the platform's
  \<open>checkpointIndex\<close> in its payload, but the response calls no service and does not
  depend on the index in the payload.
\<close>

theorem checkpoint_response:
  assumes "ptype platform = CHECKPOINT"
    and "c = checkSphereCollision isect platform pos r (eo_velocity (body st)) dt"
    and "collides c"
  shows "platformEffect c = Some \<lparr>eff_boostForce = None, eff_bounceForce = None,
            eff_checkpointIndex = Some (checkpointIndex platform)\<rparr> \<and>
         calls (handlePlatform isect dt pos r st platform) = calls st \<and>
         respond (c\<lparr>platformEffect := Some \<lparr>eff_boostForce = None, eff_bounceForce = None,
            eff_checkpointIndex = k\<rparr>\<rparr>) (platVelocity platform) st
           = handlePlatform isect dt pos r st platform"
proof -
  have e: "platformEffect c = Some \<lparr>eff_boostForce = None, eff_bounceForce = None,
            eff_checkpointIndex = Some (checkpointIndex platform)\<rparr>"
    using collides_result(1) [of isect platform pos r "eo_velocity (body st)" dt] assms
    by (simp add: getPlatformEffect_def)
  obtain n where n: "normal c = Some n"
    using collides_result(3) [of isect platform pos r "eo_velocity (body st)" dt] assms
    by auto
  have h: "handlePlatform isect dt pos r st platform = respond c (platVelocity platform) st"
    by (simp add: handlePlatform_def assms(2))
  have a: "applyEffects (platformEffect c) (eo_velocity (body st), calls st) =
      (eo_velocity (body st), calls st)"
    by (simp only: e applyEffects_checkpoint)
  have r: "reflect (c\<lparr>platformEffect := x\<rparr>) m pv on d ob = reflect c m pv on d ob"
    for x m pv on d ob
    by (simp add: reflect_def)
  have i: "respond (c\<lparr>platformEffect := Some \<lparr>eff_boostForce = None, eff_bounceForce = None,
            eff_checkpointIndex = k\<rparr>\<rparr>) (platVelocity platform) st
           = respond c (platVelocity platform) st"
    using n assms(3)
    by (simp add: respond_def e applyEffects_checkpoint r Let_def)
  show ?thesis
    by (simp add: e h i respond_collides [OF assms(3) n a])
qed

lemma cube_on_top:
  assumes "\<bar>w\<bar> < 1/100"
  shows "checkSphereCollision isect (cube t) (vec 0 (6/5) 0) (1/2) (vec 0 w 0) dt =
     \<lparr>collides = True, normal = Some (vec 0 1 0), penetration = Some 0, time = None,
      point = Some (vec 0 (6/5) 0), platformType = Some t,
      platformEffect = Some (getPlatformEffect (cube t))\<rparr>"
proof -
  have p: "calculatePenetration (cube t) (vec 0 (6/5) 0) (1/2) (vec 0 1 0) = 0"
    unfolding calculatePenetration_def cube_center
    by (simp add: dot_def sub_def vec_def)
  have "checkSphereCollision isect (cube t) (vec 0 (6/5) 0) (1/2) (vec 0 w 0) dt =
           clampedResult (cube t) (vec 0 (6/5) 0) (1/2) None"
    using assms by (intro cube_static) simp_all
  then show ?thesis
    by (simp add: clampedResult_def cube_normal_above p cube_fields maxPenetration_def)
qed

lemma handlePlatform_cube:
  "handlePlatform isect dt pos r (bodyAt pos v) (cube t) =
     respond (checkSphereCollision isect (cube t) pos r v dt) (vec 0 0 0) (bodyAt pos v)"
  by (simp add: handlePlatform_def bodyAt_def cube_fields)

text \<open>
  C6 as stated fails: a body resting on a Checkpoint platform collides with it, the
  payload carries the index 2, and the response makes no call at all.
\<close>

theorem checkpoint_not_notified:
  "collides (checkSphereCollision Ray_intersectBox (cube CHECKPOINT) (vec 0 (6/5) 0) (1/2) (vec 0 0 0) (1/60)) \<and>
   platformEffect (checkSphereCollision Ray_intersectBox (cube CHECKPOINT) (vec 0 (6/5) 0) (1/2) (vec 0 0 0) (1/60))
     = Some \<lparr>eff_boostForce = None, eff_bounceForce = None, eff_checkpointIndex = Some 2\<rparr> \<and>
   calls (handlePlatform Ray_intersectBox (1/60) (vec 0 (6/5) 0) (1/2)
           (bodyAt (vec 0 (6/5) 0) (vec 0 0 0)) (cube CHECKPOINT)) = []"
proof -
  have c: "checkSphereCollision Ray_intersectBox (cube CHECKPOINT) (vec 0 (6/5) 0) (1/2) (vec 0 0 0) (1/60) =
     \<lparr>collides = True, normal = Some (vec 0 1 0), penetration = Some 0, time = None,
      point = Some (vec 0 (6/5) 0), platformType = Some CHECKPOINT,
      platformEffect = Some (getPlatformEffect (cube CHECKPOINT))\<rparr>"
    by (rule cube_on_top) simp
  show ?thesis
    unfolding handlePlatform_cube c
    by (simp add: bodyAt_def respond_def getPlatformEffect_def
        cube_fields applyEffects_def applyBoost_def applyBounce_def Let_def)
qed

theorem checkpoint_response_witness:
  "ptype (cube CHECKPOINT) = CHECKPOINT \<and>
   collides (checkSphereCollision Ray_intersectBox (cube CHECKPOINT) (vec 0 (6/5) 0) (1/2) (vec 0 0 0) (1/60)) \<and>
   calls (handlePlatform Ray_intersectBox (1/60) (vec 0 (6/5) 0) (1/2)
           (bodyAt (vec 0 (6/5) 0) (vec 0 0 0)) (cube CHECKPOINT)) = [] \<and>
   respond ((checkSphereCollision Ray_intersectBox (cube CHECKPOINT) (vec 0 (6/5) 0) (1/2) (vec 0 0 0) (1/60))
       \<lparr>platformEffect := Some \<lparr>eff_boostForce = None, eff_bounceForce = None,
            eff_checkpointIndex = Some 7\<rparr>\<rparr>) (vec 0 0 0) (bodyAt (vec 0 (6/5) 0) (vec 0 0 0))
     = handlePlatform Ray_intersectBox (1/60) (vec 0 (6/5) 0) (1/2)
           (bodyAt (vec 0 (6/5) 0) (vec 0 0 0)) (cube CHECKPOINT)"
proof -
  let ?st = "bodyAt (vec 0 (6/5) 0) (vec 0 0 0)"
  have v: "eo_velocity (body ?st) = vec 0 0 0" and cs: "calls ?st = []"
    by (simp_all add: bodyAt_def)
  have h1: "ptype (cube CHECKPOINT) = CHECKPOINT" by (simp add: cube_fields)
  have h3: "collides (checkSphereCollision Ray_intersectBox (cube CHECKPOINT) (vec 0 (6/5) 0) (1/2)
      (eo_velocity (body ?st)) (1/60))"
    unfolding v by (simp add: cube_on_top)
  show ?thesis
    using checkpoint_response [OF h1 refl h3, of "Some 7"] h3
    by (simp only: v cs) (simp add: cube_fields)
qed

lemma length3_multiplyScalar: "length3 (multiplyScalar a s) = \<bar>s\<bar> * length3 a"
proof -
  have "vx a * s * (vx a * s) + vy a * s * (vy a * s) + vz a * s * (vz a * s)
      = (s * s) * (vx a * vx a + vy a * vy a + vz a * vz a)"
    by (simp add: algebra_simps)
  then show ?thesis
    by (simp add: length3_def multiplyScalar_def vec_def real_sqrt_mult)
qed

lemma length3_normalize_le: "length3 (normalize a) \<le> 1"
proof (cases "length3 a = 0")
  case True
  then show ?thesis by (simp add: normalize_def length3_multiplyScalar)
next
  case False
  moreover have "0 \<le> length3 a" by (simp add: length3_def)
  ultimately show ?thesis by (simp add: normalize_def length3_multiplyScalar)
qed

lemma length3_sub_add: "length3 (sub (add a b) a) = length3 b"
  by (simp add: length3_def sub_def add_def vec_def)

lemma length3_sub_self: "length3 (sub a a) = 0"
  by (simp add: length3_def sub_def vec_def)

lemma calculateCollisionNormal_length: "length3 (calculateCollisionNormal p q) \<le> 1"
  by (simp add: calculateCollisionNormal_def Let_def length3_normalize_le)

lemma clampedResult_penetration:
  "\<exists>pen. penetration (clampedResult p q r t) = Some pen \<and> 0 \<le> pen \<and> pen \<le> 1/10"
proof -
  have "0 \<le> calculatePenetration p q r (calculateCollisionNormal p q)"
    by (simp add: calculatePenetration_def Let_def)
  then have "0 \<le> min (calculatePenetration p q r (calculateCollisionNormal p q)) (1/10)"
    and "min (calculatePenetration p q r (calculateCollisionNormal p q)) (1/10) \<le> 1/10"
    by simp_all
  then show ?thesis
    by (simp only: clampedResult_def maxPenetration_def CollisionResult.simps) blast
qed

lemma respond_position:
  assumes "collides c" and "normal c = Some n" and "penetration c = Some pen"
  shows "position (eo_mesh (body (respond c pv st))) = position (eo_mesh (body st)) \<or>
         position (eo_mesh (body (respond c pv st)))
           = add (position (eo_mesh (body st))) (multiplyScalar n pen)"
proof -
  obtain v1 cs1 where a: "applyEffects (platformEffect c) (eo_velocity (body st), calls st) = (v1, cs1)"
    by (cases "applyEffects (platformEffect c) (eo_velocity (body st), calls st)")
  show ?thesis
    by (simp add: respond_collides [OF assms(1,2) a] reflect_def Let_def assms(3) nullish_def)
qed

lemma respond_correction_bound:
  assumes "collides c" and "normal c = Some n" and "penetration c = Some pen"
    and "length3 n \<le> 1" and "0 \<le> pen" and "pen \<le> 1/10"
  shows "length3 (sub (position (eo_mesh (body (respond c pv st)))) (position (eo_mesh (body st))))
           \<le> 1/10"
proof -
  have "\<bar>pen\<bar> * length3 n \<le> (1/10) * 1"
    using assms(4-6) by (intro mult_mono) (simp_all add: length3_def)
  then have "length3 (multiplyScalar n pen) \<le> 1/10"
    by (simp add: length3_multiplyScalar)
  with respond_position [OF assms(1-3), of pv st] show ?thesis
    by (auto simp: length3_sub_add length3_sub_self)
qed

lemma length3_y: "length3 (vec 0 a 0) = \<bar>a\<bar>"
  by (simp add: length3_def vec_def)

lemma cube_contains:
  assumes "\<bar>vx a\<bar> \<le> 3/2" "\<bar>vy a\<bar> \<le> 3/2" "\<bar>vz a\<bar> \<le> 3/2"
  shows "containsPoint (expandByScalar (boundingBox (cube t)) (1/2)) a"
proof -
  have "- (3/2) \<le> vx a" "vx a \<le> 3/2" "- (3/2) \<le> vy a" "vy a \<le> 3/2"
    "- (3/2) \<le> vz a" "vz a \<le> 3/2"
    using assms by linarith+
  then show ?thesis
    by (simp add: cube_fields expandByScalar_def containsPoint_def add_def vec_def)
qed

lemma cube_sunk:
  "checkSphereCollision isect (cube t) (vec 0 (3/10) 0) (1/2) (vec 0 (- (1/200)) 0) dt =
     \<lparr>collides = True, normal = Some (vec 0 1 0), penetration = Some (1/10), time = None,
      point = Some (vec 0 (3/10) 0), platformType = Some t,
      platformEffect = Some (getPlatformEffect (cube t))\<rparr>"
proof -
  have n: "calculateCollisionNormal (cube t) (vec 0 (3/10) 0) = vec 0 1 0"
    unfolding calculateCollisionNormal_def cube_center cube_size
    by (simp add: faceDistance_def Math_sign_def vec_def normalize_axis [unfolded vec_def])
  have p: "calculatePenetration (cube t) (vec 0 (3/10) 0) (1/2) (vec 0 1 0) = 1/5"
    unfolding calculatePenetration_def cube_center
    by (simp add: dot_def sub_def vec_def)
  have "checkSphereCollision isect (cube t) (vec 0 (3/10) 0) (1/2) (vec 0 (- (1/200)) 0) dt =
           clampedResult (cube t) (vec 0 (3/10) 0) (1/2) None"
    by (rule cube_static) simp_all
  then show ?thesis
    by (simp add: clampedResult_def n p cube_fields maxPenetration_def)
qed

subsection \<open>The ray test of three.js\<close>

lemma slab_inside:
  assumes "lo \<le> org" and "org \<le> hi"
  shows "nonpos (fst (slab lo hi org d))" and "nonneg (snd (slab lo hi org d))"
proof -
  consider "d = 0" | "d > 0" | "d < 0" by linarith
  then have "nonpos (fst (slab lo hi org d)) \<and> nonneg (snd (slab lo hi org d))"
  proof cases
    case 1
    then show ?thesis using assms
      by (simp add: slab_def invdir_def ge0_def xtimes_def nonpos_def nonneg_def)
  next
    case 2
    then show ?thesis using assms
      by (simp add: slab_def invdir_def ge0_def xtimes_def nonpos_def nonneg_def
          divide_nonpos_pos)
  next
    case 3
    then have "\<not> 0 \<le> 1 / d" by simp
    with 3 show ?thesis using assms
      by (simp add: slab_def invdir_def ge0_def xtimes_def nonpos_def nonneg_def
          divide_nonneg_neg divide_nonpos_neg)
  qed
  then show "nonpos (fst (slab lo hi org d))" and "nonneg (snd (slab lo hi org d))" by simp_all
qed

lemma gt_nonpos_nonneg: "nonpos a \<Longrightarrow> nonneg b \<Longrightarrow> \<not> gt a b"
  by (cases a; cases b) (simp_all add: nonpos_def nonneg_def)

lemma lt_zero_nonneg: "nonneg b \<Longrightarrow> \<not> lt b (Fin 0)"
  by (cases b) (simp_all add: nonneg_def lt_def)

lemma Ray_intersectBox_inside:
  assumes "containsPoint box (origin ray)"
  shows "Ray_intersectBox ray box \<noteq> None"
proof -
  obtain tmin tmax where x: "slab (vx (bmin box)) (vx (bmax box)) (vx (origin ray)) (vx (direction ray)) = (tmin, tmax)"
    by (cases "slab (vx (bmin box)) (vx (bmax box)) (vx (origin ray)) (vx (direction ray))")
  obtain tymin tymax where y: "slab (vy (bmin box)) (vy (bmax box)) (vy (origin ray)) (vy (direction ray)) = (tymin, tymax)"
    by (cases "slab (vy (bmin box)) (vy (bmax box)) (vy (origin ray)) (vy (direction ray))")
  obtain tzmin tzmax where z: "slab (vz (bmin box)) (vz (bmax box)) (vz (origin ray)) (vz (direction ray)) = (tzmin, tzmax)"
    by (cases "slab (vz (bmin box)) (vz (bmax box)) (vz (origin ray)) (vz (direction ray))")
  from assms have c: "vx (bmin box) \<le> vx (origin ray)" "vx (origin ray) \<le> vx (bmax box)"
    "vy (bmin box) \<le> vy (origin ray)" "vy (origin ray) \<le> vy (bmax box)"
    "vz (bmin box) \<le> vz (origin ray)" "vz (origin ray) \<le> vz (bmax box)"
    by (simp_all add: containsPoint_def)
  have n: "nonpos tmin" "nonneg tmax" "nonpos tymin" "nonneg tymax" "nonpos tzmin" "nonneg tzmax"
    using slab_inside [OF c(1,2), of "vx (direction ray)"]
      slab_inside [OF c(3,4), of "vy (direction ray)"]
      slab_inside [OF c(5,6), of "vz (direction ray)"]
    by (simp_all add: x y z)
  define tmin1 where "tmin1 = (if gt tymin tmin \<or> isNaN tmin then tymin else tmin)"
  define tmax1 where "tmax1 = (if lt tymax tmax \<or> isNaN tmax then tymax else tmax)"
  define tmax2 where "tmax2 = (if lt tzmax tmax1 \<or> isNaN tmax1 then tzmax else tmax1)"
  have n1: "nonpos tmin1" "nonneg tmax1" using n by (simp_all add: tmin1_def tmax1_def)
  have n2: "nonneg tmax2" using n n1 by (simp add: tmax2_def)
  have g: "\<not> gt tmin tymax" "\<not> gt tymin tmax" "\<not> gt tmin1 tzmax" "\<not> gt tzmin tmax1"
    "\<not> lt tmax2 (Fin 0)"
    using n n1 n2 by (simp_all add: gt_nonpos_nonneg lt_zero_nonneg)
  show ?thesis
    using g by (simp add: Ray_intersectBox_def x y z Let_def tmin1_def [symmetric] tmax1_def [symmetric]
        tmax2_def [symmetric])
qed

text \<open>
  The query never reaches \<open>handlePenetration\<close>: that needs a ray that misses the
  expanded box from an origin inside it.
\<close>

lemma never_fallback: "\<not> fallbackTaken Ray_intersectBox p pos r v dt"
proof
  assume f: "fallbackTaken Ray_intersectBox p pos r v dt"
  then have "containsPoint (expandByScalar (boundingBox p) r) (origin (sweepRay p pos v dt))"
    by (simp add: fallbackTaken_def sweepRay_def)
  from Ray_intersectBox_inside [OF this] f show False
    by (simp add: fallbackTaken_def)
qed

text \<open>What \<open>handlePenetration\<close> would carry: the radius plus 0.01, not clamped.\<close>

lemma handlePenetration_penetration:
  "penetration (handlePenetration p pos r) = Some (r + 1 / 100)"
  by (simp add: handlePenetration_def Let_def)

text \<open>
  A sphere centre inside the cube's expanded box, moving down at speed 1: the ray leaves
  the box at \<open>(0, -1.5, 0)\<close>, 1.9 away, and the query reports no collision.
\<close>

lemma ray_from_inside:
  "Ray_intersectBox \<lparr>origin = vec 0 (2/5) 0, direction = vec 0 (- 1) 0\<rparr>
     \<lparr>bmin = vec (- (3/2)) (- (3/2)) (- (3/2)), bmax = vec (3/2) (3/2) (3/2)\<rparr>
   = Some (vec 0 (- (3/2)) 0)"
  by (simp add: Ray_intersectBox_def slab_def invdir_def ge0_def xtimes_def lt_def isNaN_def
      rayAt_def Let_def add_def multiplyScalar_def vec_def)

lemma query_from_inside:
  "checkSphereCollision Ray_intersectBox (cube NORMAL) (vec 0 (2/5) 0) (1/2) (vec 0 (- 1) 0) (1/60)
     = noCollision"
proof -
  have s: "\<not> staticQuery (cube NORMAL) (vec 0 (- 1) 0)"
    by (simp add: staticQuery_def lengthSq_def vec_def)
  have "multiplyScalar (sub (vec 0 (- 1) 0) (vec 0 0 0)) (1/60) = vec 0 (- (1/60)) 0"
    by (simp add: multiplyScalar_def sub_def vec_def)
  moreover have "normalize (vec 0 (- (1/60)) 0) = vec 0 (- 1) 0"
    by (simp add: normalize_def length3_y) (simp add: multiplyScalar_def vec_def)
  ultimately have r: "sweepRay (cube NORMAL) (vec 0 (2/5) 0) (vec 0 (- 1) 0) (1/60)
      = \<lparr>origin = vec 0 (2/5) 0, direction = vec 0 (- 1) 0\<rparr>"
    by (simp add: sweepRay_def cube_fields)
  have b: "expandByScalar (boundingBox (cube NORMAL)) (1/2)
      = \<lparr>bmin = vec (- (3/2)) (- (3/2)) (- (3/2)), bmax = vec (3/2) (3/2) (3/2)\<rparr>"
    by (simp add: cube_fields expandByScalar_def add_def vec_def)
  have d: "distanceTo (vec 0 (2/5) 0) (vec 0 (- (3/2)) 0) = 19/10"
    by (simp add: distanceTo_def sub_def vec_def length3_y [unfolded vec_def])
  have l: "length3 (vec 0 (- 1) 0) = 1"
    by (simp add: length3_y)
  show ?thesis
    by (simp only: checkSphereCollision_unfold r b ray_from_inside) (simp add: s d l)
qed

subsection \<open>Penetration of a reported collision\<close>

text \<open>
  C1: every collision that the swept-sphere query reports carries a penetration between
  0 and the maximum 0.1, and the correction that the response applies to the body's
  position for it is at most 0.1 long, whatever the raw penetration. The
  \<open>handlePenetration\<close> branch produces none of the reported collisions.
\<close>

theorem reported_penetration_bound:
  assumes "c = checkSphereCollision Ray_intersectBox p pos r v dt" and "collides c"
  shows "\<not> fallbackTaken Ray_intersectBox p pos r v dt \<and>
         (\<exists>pen. penetration c = Some pen \<and> 0 \<le> pen \<and> pen \<le> 1/10) \<and>
         length3 (sub (position (eo_mesh (body (respond c pv st))))
                      (position (eo_mesh (body st)))) \<le> 1/10"
proof -
  from checkSphereCollision_collides [of Ray_intersectBox p pos r v dt] assms never_fallback
  obtain q t where c: "c = clampedResult p q r t" by auto
  obtain pen where pen: "penetration c = Some pen" "0 \<le> pen" "pen \<le> 1/10"
    using clampedResult_penetration [of p q r t] c by auto
  have n: "normal c = Some (calculateCollisionNormal p q)"
    by (simp add: c clampedResult_def)
  from respond_correction_bound [OF assms(2) n pen(1) calculateCollisionNormal_length pen(2,3)]
  show ?thesis using never_fallback pen by simp
qed

lemma cube_sunk_rest:
  "checkSphereCollision isect (cube t) (vec 0 (3/10) 0) (1/2) (vec 0 0 0) dt =
     \<lparr>collides = True, normal = Some (vec 0 1 0), penetration = Some (1/10), time = None,
      point = Some (vec 0 (3/10) 0), platformType = Some t,
      platformEffect = Some (getPlatformEffect (cube t))\<rparr>"
proof -
  have n: "calculateCollisionNormal (cube t) (vec 0 (3/10) 0) = vec 0 1 0"
    unfolding calculateCollisionNormal_def cube_center cube_size
    by (simp add: faceDistance_def Math_sign_def vec_def normalize_axis [unfolded vec_def])
  have p: "calculatePenetration (cube t) (vec 0 (3/10) 0) (1/2) (vec 0 1 0) = 1/5"
    unfolding calculatePenetration_def cube_center
    by (simp add: dot_def sub_def vec_def)
  have "checkSphereCollision isect (cube t) (vec 0 (3/10) 0) (1/2) (vec 0 0 0) dt =
           clampedResult (cube t) (vec 0 (3/10) 0) (1/2) None"
    by (rule cube_static) simp_all
  then show ?thesis
    by (simp add: clampedResult_def n p cube_fields maxPenetration_def)
qed

theorem reported_penetration_bound_witness:
  "collides (checkSphereCollision Ray_intersectBox (cube NORMAL) (vec 0 (3/10) 0) (1/2)
              (vec 0 0 0) (1/60)) \<and>
   calculatePenetration (cube NORMAL) (vec 0 (3/10) 0) (1/2) (vec 0 1 0) = 1/5 \<and>
   penetration (checkSphereCollision Ray_intersectBox (cube NORMAL) (vec 0 (3/10) 0) (1/2)
              (vec 0 0 0) (1/60)) = Some (1/10) \<and>
   length3 (sub (position (eo_mesh (body (handlePlatform Ray_intersectBox (1/60) (vec 0 (3/10) 0) (1/2)
      (bodyAt (vec 0 (3/10) 0) (vec 0 0 0)) (cube NORMAL)))))
     (vec 0 (3/10) 0)) \<le> 1/10 \<and>
   collides (checkSphereCollision Ray_intersectBox (cube NORMAL) (vec 0 (3/10) 0) (1/2)
              (vec 0 (- (1/200)) 0) (1/60)) \<and>
   penetration (checkSphereCollision Ray_intersectBox (cube NORMAL) (vec 0 (3/10) 0) (1/2)
              (vec 0 (- (1/200)) 0) (1/60)) = Some (1/10) \<and>
   position (eo_mesh (body (handlePlatform Ray_intersectBox (1/60) (vec 0 (3/10) 0) (1/2)
      (bodyAt (vec 0 (3/10) 0) (vec 0 (- (1/200)) 0)) (cube NORMAL)))) = vec 0 (2/5) 0 \<and>
   length3 (sub (position (eo_mesh (body (handlePlatform Ray_intersectBox (1/60) (vec 0 (3/10) 0) (1/2)
      (bodyAt (vec 0 (3/10) 0) (vec 0 (- (1/200)) 0)) (cube NORMAL)))))
     (vec 0 (3/10) 0)) \<le> 1/10"
proof -
  let ?pos = "vec 0 (3/10) 0" and ?v = "vec 0 (- (1/200)) 0" and ?z = "vec 0 0 0"
  let ?c = "checkSphereCollision Ray_intersectBox (cube NORMAL) ?pos (1/2) ?v (1/60)"
  let ?d = "checkSphereCollision Ray_intersectBox (cube NORMAL) ?pos (1/2) ?z (1/60)"
  have h: "collides ?c" by (simp add: cube_sunk)
  have h0: "collides ?d" by (simp add: cube_sunk_rest)
  have raw: "calculatePenetration (cube NORMAL) ?pos (1/2) (vec 0 1 0) = 1/5"
    unfolding calculatePenetration_def cube_center
    by (simp add: dot_def sub_def vec_def)
  have p: "position (eo_mesh (body (handlePlatform Ray_intersectBox (1/60) ?pos (1/2)
      (bodyAt ?pos ?v) (cube NORMAL)))) = vec 0 (2/5) 0"
    unfolding handlePlatform_cube cube_sunk
    by (simp add: bodyAt_def respond_def getPlatformEffect_def
      cube_fields applyEffects_def applyBoost_def applyBounce_def Let_def reflect_def truthy_def
      nullish_def dot_def add_def multiplyScalar_def vec_def)
  have b: "position (eo_mesh (body (bodyAt ?pos w))) = ?pos" for w
    by (simp add: bodyAt_def)
  from reported_penetration_bound [OF refl h, of "vec 0 0 0" "bodyAt ?pos ?v"]
  have "length3 (sub (position (eo_mesh (body (respond ?c (vec 0 0 0) (bodyAt ?pos ?v))))) ?pos) \<le> 1/10"
    by (simp only: b)
  then have m: "length3 (sub (position (eo_mesh (body (handlePlatform Ray_intersectBox (1/60) ?pos (1/2)
      (bodyAt ?pos ?v) (cube NORMAL))))) ?pos) \<le> 1/10"
    by (simp only: handlePlatform_cube)
  from reported_penetration_bound [OF refl h0, of "vec 0 0 0" "bodyAt ?pos ?z"]
  have "length3 (sub (position (eo_mesh (body (respond ?d (vec 0 0 0) (bodyAt ?pos ?z))))) ?pos) \<le> 1/10"
    by (simp only: b)
  then have m0: "length3 (sub (position (eo_mesh (body (handlePlatform Ray_intersectBox (1/60) ?pos (1/2)
      (bodyAt ?pos ?z) (cube NORMAL))))) ?pos) \<le> 1/10"
    by (simp only: handlePlatform_cube)
  from h h0 raw p m m0 show ?thesis
    by (simp add: cube_sunk cube_sunk_rest)
qed

subsection \<open>The contact normal\<close>

text \<open>
  C7 fails on the code: for a sphere at rest at \<open>(0.8, 1.2, 0)\<close> by the cube, the faces
  \<open>x = 1\<close> and \<open>y = 1\<close> are the nearest, both 0.2 away, and the z faces are 1 away.
  Neither \<open>dx < dy\<close> nor \<open>dy < dx\<close> holds, so \<open>calculateCollisionNormal\<close> takes the z
  branch, where \<open>Math.sign(0)\<close> is 0: the reported collision carries the zero vector as
  its normal, not a signed unit axis.
\<close>

theorem normal_zero_at_tie:
  "collides (checkSphereCollision Ray_intersectBox (cube NORMAL) (vec (4/5) (6/5) 0) (1/2)
              (vec 0 0 0) (1/60)) \<and>
   getCenter (boundingBox (cube NORMAL)) = vec 0 0 0 \<and>
   getSize (boundingBox (cube NORMAL)) = vec 2 2 2 \<and>
   faceDistance (4/5) 0 2 = 1/5 \<and> faceDistance (6/5) 0 2 = 1/5 \<and> faceDistance 0 0 2 = 1 \<and>
   normal (checkSphereCollision Ray_intersectBox (cube NORMAL) (vec (4/5) (6/5) 0) (1/2)
              (vec 0 0 0) (1/60)) = Some (vec 0 0 0) \<and>
   \<not> signedUnitAxis (vec 0 0 0)"
proof -
  have s: "staticQuery (cube NORMAL) (vec 0 0 0)"
    by (simp add: staticQuery_def lengthSq_def vec_def cube_fields)
  have c: "containsPoint (expandByScalar (boundingBox (cube NORMAL)) (1/2)) (vec (4/5) (6/5) 0)"
    by (rule cube_contains) (simp_all add: vec_def)
  have n: "calculateCollisionNormal (cube NORMAL) (vec (4/5) (6/5) 0) = vec 0 0 0"
    unfolding calculateCollisionNormal_def cube_center cube_size
    by (simp add: faceDistance_def Math_sign_def vec_def normalize_axis [unfolded vec_def])
  have c1: "checkSphereCollision Ray_intersectBox (cube NORMAL) (vec (4/5) (6/5) 0) (1/2)
      (vec 0 0 0) (1/60) = clampedResult (cube NORMAL) (vec (4/5) (6/5) 0) (1/2) None"
    by (simp only: checkSphereCollision_static [OF s] checkStaticSphereCollision_inside [OF c])
  have z: "\<not> signedUnitAxis (vec 0 0 0)"
    by (simp add: signedUnitAxis_def vec_def)
  have f: "faceDistance (4/5) 0 2 = 1/5" "faceDistance (6/5) 0 2 = 1/5" "faceDistance 0 0 2 = 1"
    by (simp_all add: faceDistance_def)
  show ?thesis
    by (simp add: c1 clampedResult_def n z f cube_center cube_size)
qed

subsection \<open>The two velocities of a body\<close>

text \<open>
  The velocity in the engine's map is zero when the body is added, and the collision
  response, the only code that writes it, leaves a zero velocity and its body as they
  are.
\<close>

lemma respond_zero_velocity:
  assumes "eo_velocity (body st) = vec 0 0 0"
  shows "body (respond c pv st) = body st"
proof -
  have n: "normalize (vec 0 0 0) = vec 0 0 0"
    by (simp add: normalize_def length3_def multiplyScalar_def vec_def)
  have b: "fst (applyBoost f (vec 0 0 0, cs)) = vec 0 0 0" for f cs
    by (cases f) (simp_all add: applyBoost_def n Let_def, simp add: add_def multiplyScalar_def vec_def)
  have bb: "fst s = vec 0 0 0 \<Longrightarrow> fst (applyBounce f s) = vec 0 0 0" for f s
    by (cases f) (simp_all add: applyBounce_def, simp add: vec_def)
  have e: "fst (applyEffects eff (vec 0 0 0, cs)) = vec 0 0 0" for eff cs
    by (cases eff) (simp_all add: applyEffects_def bb b)
  obtain v1 cs1 where a: "applyEffects (platformEffect c) (vec 0 0 0, calls st) = (v1, cs1)"
    by (cases "applyEffects (platformEffect c) (vec 0 0 0, calls st)")
  with e [of "platformEffect c" "calls st"] have v1: "v1 = vec 0 0 0" by simp
  have d: "dot (vec 0 0 0) m = 0" for m by (simp add: dot_def vec_def)
  have u: "(body st)\<lparr>eo_velocity := vec 0 0 0\<rparr> = body st"
    using assms by (cases "body st") simp
  show ?thesis
  proof (cases "normal c")
    case None
    then show ?thesis by (simp add: respond_def)
  next
    case (Some m)
    then show ?thesis
      by (simp add: respond_def assms a v1 d u Let_def)
  qed
qed

lemma handlePlatforms_zero_velocity:
  assumes "eo_velocity (body st) = vec 0 0 0"
  shows "body (foldl (handlePlatform isect dt pos r) st ps) = body st"
  using assms
proof (induction ps arbitrary: st)
  case Nil
  then show ?case by simp
next
  case (Cons p ps)
  have b: "body (handlePlatform isect dt pos r st p) = body st"
    unfolding handlePlatform_def by (rule respond_zero_velocity) (rule Cons.prems)
  then have "eo_velocity (body (handlePlatform isect dt pos r st p)) = vec 0 0 0"
    using Cons.prems by simp
  from Cons.IH [OF this] b show ?case by simp
qed

lemma collideObject_zero_velocity:
  assumes "eo_velocity object = vec 0 0 0"
  shows "collideObject isect dt plats object = object"
proof -
  have "body (handlePlatforms isect dt plats object) = object"
    unfolding handlePlatforms_def
    using handlePlatforms_zero_velocity [of "\<lparr>body = object, isOnPlatform = False, calls = []\<rparr>"]
      assms by simp
  then show ?thesis by (simp add: collideObject_def Let_def)
qed

lemma collisionPass_bodyVelocity:
  "bodyVelocity (collisionPass isect dt g) ident = bodyVelocity g ident"
  by (cases "objects (physicsService g) ident")
     (simp_all add: bodyVelocity_def collisionPass_def Let_def shareMesh_def split: option.split)

lemma droppedBall_engine:
  "engineObjects droppedBall ''player-ball'' =
     Some \<lparr>eo_mesh = \<lparr>position = vec 0 (6/5) 0, radius = 1/2\<rparr>, eo_velocity = vec 0 0 0,
           eo_restitution = 7/10\<rparr>"
  by (simp add: droppedBall_def engineApplyImpulse_def addPhysicsObject_def bounceLevel_def
      playerOptions_def nullish_def)

lemma droppedBall_body: "bodyVelocity droppedBall ''player-ball'' = Some (vec 0 (- 5) 0)"
  by (simp add: bodyVelocity_def droppedBall_def engineApplyImpulse_def addPhysicsObject_def
      bounceLevel_def applyImpulse_def addObject_def initialService_def playerOptions_def
      nullish_def Let_def add_def multiplyScalar_def vec_def)

text \<open>The frame that follows the push, up to the collision loop.\<close>

lemma droppedBall_object:
  "objects (physicsService droppedBall) ''player-ball'' =
     Some \<lparr>mesh = \<lparr>position = vec 0 (6/5) 0, radius = 1/2\<rparr>, velocity = vec 0 (- 5) 0,
           acceleration = vec 0 (- 20) 0, mass = 1, restitution = 7/10, friction = 1/10,
           previousPosition = vec 0 (6/5) 0, previousVelocity = vec 0 0 0\<rparr>"
  by (simp add: droppedBall_def engineApplyImpulse_def addPhysicsObject_def
      bounceLevel_def applyImpulse_def addObject_def initialService_def playerOptions_def
      physicsConfig_def nullish_def Let_def add_def multiplyScalar_def vec_def)

lemma droppedBall_config: "config (physicsService droppedBall) = physicsConfig"
  by (simp add: droppedBall_def engineApplyImpulse_def addPhysicsObject_def
      bounceLevel_def applyImpulse_def addObject_def initialService_def Let_def)

lemma pushed_step:
  "updateOne physicsConfig (1/60)
     \<lparr>mesh = \<lparr>position = vec 0 (6/5) 0, radius = 1/2\<rparr>, velocity = vec 0 (- 5) 0,
      acceleration = vec 0 (- 20) 0, mass = 1, restitution = 7/10, friction = 1/10,
      previousPosition = vec 0 (6/5) 0, previousVelocity = vec 0 0 0\<rparr>
   = \<lparr>mesh = \<lparr>position = vec 0 (10/9) 0, radius = 1/2\<rparr>, velocity = vec 0 (- (16/3)) 0,
      acceleration = vec 0 (- 20) 0, mass = 1, restitution = 7/10, friction = 1/10,
      previousPosition = vec 0 (6/5) 0, previousVelocity = vec 0 (- 5) 0\<rparr>"
proof -
  let ?o1 = "\<lparr>mesh = \<lparr>position = vec 0 (6/5) 0, radius = 1/2\<rparr>, velocity = vec 0 (- 5) 0,
      acceleration = vec 0 (- 20) 0, mass = 1, restitution = 7/10, friction = 1/10,
      previousPosition = vec 0 (6/5) 0, previousVelocity = vec 0 (- 5) 0\<rparr>"
  let ?o2 = "\<lparr>mesh = \<lparr>position = vec 0 (10/9) 0, radius = 1/2\<rparr>, velocity = vec 0 (- (16/3)) 0,
      acceleration = vec 0 (- 20) 0, mass = 1, restitution = 7/10, friction = 1/10,
      previousPosition = vec 0 (6/5) 0, previousVelocity = vec 0 (- 5) 0\<rparr>"
  have "\<lceil>1 / 12 :: real\<rceil> = 1"
    by (simp add: ceiling_eq_iff)
  then have n: "subSteps physicsConfig ?o1 (1/60) = 1"
    by (simp add: subSteps_def physicsConfig_def length3_y)
  have l: "length3 (vec 0 (- (16/3)) 0) = 16/3"
    by (simp add: length3_y)
  have u: "updateObject physicsConfig ?o1 (1/60) = ?o2"
    unfolding updateObject_def
    by (simp add: add_def multiplyScalar_def vec_def Let_def physicsConfig_def
        l [unfolded vec_def])
  have f: "checkFloor physicsConfig ?o2 = ?o2"
    by (simp add: checkFloor_def vec_def Let_def)
  have x: "checkBoundX ?o2 = ?o2"
    by (simp add: checkBoundX_def vec_def Let_def)
  have z: "checkBoundZ ?o2 = ?o2"
    by (simp add: checkBoundZ_def vec_def Let_def)
  have c: "checkBounds physicsConfig ?o2 = ?o2"
    by (simp only: checkBounds_def f x z)
  show ?thesis
    unfolding updateOne_def
    by (simp add: Let_def n [unfolded vec_def] iterations_def u [unfolded vec_def]
        c [unfolded vec_def] vec_def)
qed

lemma integrate_droppedBall:
  "bodyVelocity (integrate (1/60) droppedBall) ''player-ball'' = Some (vec 0 (- (16/3)) 0) \<and>
   engineObjects (integrate (1/60) droppedBall) ''player-ball'' =
     Some \<lparr>eo_mesh = \<lparr>position = vec 0 (10/9) 0, radius = 1/2\<rparr>, eo_velocity = vec 0 0 0,
           eo_restitution = 7/10\<rparr>"
  by (simp add: bodyVelocity_def integrate_def Let_def update_def droppedBall_object
      droppedBall_config droppedBall_engine pushed_step integratedMesh_def)

lemma cappedDeltaTime_step: "cappedDeltaTime (1/60) = 1/60"
  by (simp add: cappedDeltaTime_def)

text \<open>
  C3 fails on the code: the bounce is written into the engine's own velocity, not into the
  velocity the integrator moves the body with. A ball pushed down at 5 onto a Bounce
  platform (\<open>bounceForce = 1.5\<close>) falls at \<open>16/3\<close> after the integrator's step of the
  next frame and is reported as colliding with the platform; after the collision loop of
  that frame its velocity is still \<open>(0, -16/3, 0)\<close>, not \<open>|-16/3| * 1.5 * 2 = 16\<close>
  upwards, and the engine's velocity, zero since \<open>addPhysicsObject\<close>, is still zero.
\<close>

theorem bounce_misses_body:
  "bodyVelocity droppedBall ''player-ball'' = Some (vec 0 (- 5) 0) \<and>
   engineVelocity droppedBall ''player-ball'' = Some (vec 0 0 0) \<and>
   levelPlatforms droppedBall = [(''bounce'', cube BOUNCE)] \<and>
   bodyVelocity (integrate (1/60) droppedBall) ''player-ball'' = Some (vec 0 (- (16/3)) 0) \<and>
   bodyPosition (integrate (1/60) droppedBall) ''player-ball'' = Some (vec 0 (10/9) 0) \<and>
   engineVelocity (integrate (1/60) droppedBall) ''player-ball'' = Some (vec 0 0 0) \<and>
   collides (checkSphereCollision Ray_intersectBox (cube BOUNCE) (vec 0 (10/9) 0) (1/2)
               (vec 0 0 0) (1/60)) \<and>
   platformEffect (checkSphereCollision Ray_intersectBox (cube BOUNCE) (vec 0 (10/9) 0) (1/2)
               (vec 0 0 0) (1/60))
     = Some \<lparr>eff_boostForce = None, eff_bounceForce = Some (3/2), eff_checkpointIndex = None\<rparr> \<and>
   bodyVelocity (updateBodies Ray_intersectBox (1/60) droppedBall) ''player-ball''
     = Some (vec 0 (- (16/3)) 0) \<and>
   engineVelocity (updateBodies Ray_intersectBox (1/60) droppedBall) ''player-ball''
     = Some (vec 0 0 0) \<and>
   \<bar>- (16/3)\<bar> * (3/2) * 2 = (16::real)"
proof -
  have c: "checkSphereCollision Ray_intersectBox (cube BOUNCE) (vec 0 (10/9) 0) (1/2) (vec 0 0 0) (1/60)
      = clampedResult (cube BOUNCE) (vec 0 (10/9) 0) (1/2) None"
    by (rule cube_static) simp_all
  have l: "levelPlatforms droppedBall = [(''bounce'', cube BOUNCE)]"
    by (simp add: droppedBall_def engineApplyImpulse_def addPhysicsObject_def bounceLevel_def)
  have e0: "engineVelocity droppedBall ''player-ball'' = Some (vec 0 0 0)"
    by (simp add: engineVelocity_def droppedBall_engine)
  note i = integrate_droppedBall
  have e1: "engineVelocity (integrate (1/60) droppedBall) ''player-ball'' = Some (vec 0 0 0)"
    by (simp add: engineVelocity_def i)
  have p1: "bodyPosition (integrate (1/60) droppedBall) ''player-ball'' = Some (vec 0 (10/9) 0)"
    by (simp add: bodyPosition_def i)
  have e2: "engineVelocity (updateBodies Ray_intersectBox (1/60) droppedBall) ''player-ball''
      = Some (vec 0 0 0)"
    by (simp add: engineVelocity_def updateBodies_def cappedDeltaTime_step collisionPass_def
        Let_def i collideObject_zero_velocity)
  have b2: "bodyVelocity (updateBodies Ray_intersectBox (1/60) droppedBall) ''player-ball''
      = Some (vec 0 (- (16/3)) 0)"
    by (simp add: updateBodies_def cappedDeltaTime_step Let_def collisionPass_bodyVelocity i)
  have k: "collides (clampedResult (cube BOUNCE) (vec 0 (10/9) 0) (1/2) None)"
    "platformEffect (clampedResult (cube BOUNCE) (vec 0 (10/9) 0) (1/2) None)
       = Some \<lparr>eff_boostForce = None, eff_bounceForce = Some (3/2), eff_checkpointIndex = None\<rparr>"
    by (simp_all add: clampedResult_def getPlatformEffect_def cube_fields)
  show ?thesis
    by (simp add: droppedBall_body e0 l i e1 p1 c k e2 b2)
qed

end
